theory Spec2Isabelle
  imports Main "HOL-Library.AList" "HOL-Library.Char_ord" "HOL-Library.List_Lexorder"
begin

section \<open>The Python fragment the patch engine runs on\<close>

text \<open>
  The engine of \<^verbatim>\<open>extras/kapuchin_monkey.py\<close> reads and writes attributes of
  live Python objects. The embedding keeps an explicit store: every object has an
  identity (a reference), a \<^verbatim>\<open>__dict__\<close> (an association list in insertion order, as a
  Python dict is), a type, a name, and, for a class, its linearised ancestors.

  Attribute access follows the generic lookup of CPython 3, descriptors included: a data
  descriptor found on the type comes first, then the own \<^verbatim>\<open>__dict__\<close> of the object, then
  the other attributes of the type, bound to the object; on a class, \<^verbatim>\<open>getattr\<close> searches
  the linearisation of the class in place of the own \<^verbatim>\<open>__dict__\<close> and binds what it finds
  there with \<^verbatim>\<open>__get__(None, cls)\<close>.

  The fragment: objects are instances, classes, modules, Python functions and built-in
  methods; no class defines \<^verbatim>\<open>__getattr__\<close>, \<^verbatim>\<open>__getattribute__\<close>, \<^verbatim>\<open>__setattr__\<close>,
  \<^verbatim>\<open>__delattr__\<close>, \<^verbatim>\<open>__get__\<close>, \<^verbatim>\<open>__set__\<close> or \<^verbatim>\<open>__slots__\<close>. The descriptors are
  functions, built-in methods, classmethod and staticmethod objects, properties without
  setter and deleter, and the \<^verbatim>\<open>__name__\<close> descriptor of classes and functions. A property
  getter is taken to return, to leave the store as it is, and its value stays symbolic.
  The built-in classes \<^verbatim>\<open>object\<close>, \<^verbatim>\<open>type\<close>, \<^verbatim>\<open>function\<close>, \<^verbatim>\<open>module\<close> and
  \<^verbatim>\<open>wrapper_descriptor\<close> sit at fixed references and are immutable, as in CPython. Which
  attributes they have is part of the store, as for every other class.
\<close>

type_synonym ref = nat

datatype error = AttributeError | RuntimeError | TypeError | ImportError

datatype pyval =
    PNone
  | PBool bool
  | PInt int
  | PStr string
  | PTuple "pyval list"
  | PList "pyval list"
  | PRef ref
  | PBound pyval pyval
  | PMethodWrapper pyval pyval
  | PClassmethod pyval
  | PStaticmethod pyval
  | PProperty pyval
  | PCall pyval pyval
  | PNameDescr
  | PData decorator_data
  | PDatas "(ref \<times> pyval) list"
and patch =
    Patch (destination: pyval) (name: string) (obj: pyval) (settings: pyval)
and decorator_data =
    DecoratorData (patches: "patch list") (override_destination: "pyval option")
      (override_name: "string option") (filter_override: "bool option")

text \<open>
  \<open>PRef r\<close> is an object of the store. \<open>PBound f s\<close> is the bound method of the function
  \<open>f\<close> on \<open>s\<close> (\<^verbatim>\<open>__func__\<close>, \<^verbatim>\<open>__self__\<close>); \<open>PMethodWrapper f s\<close> is a built-in method
  bound to \<open>s\<close>, which has no \<^verbatim>\<open>__func__\<close>. \<open>PClassmethod f\<close> and \<open>PStaticmethod f\<close> are
  the objects that the two decorators make, as a class \<^verbatim>\<open>__dict__\<close> stores them.
  \<open>PProperty g\<close> is a property with getter \<open>g\<close> and \<open>PCall g s\<close> the value that \<open>g\<close>
  returns on \<open>s\<close>. \<open>PNameDescr\<close> is the descriptor that serves \<^verbatim>\<open>__name__\<close> from the
  object itself. \<open>PData\<close> is a \<^verbatim>\<open>DecoratorData\<close> object and \<open>PDatas\<close> the dict of them
  that a class carries, keyed by class. A \<^verbatim>\<open>DecoratorData.override\<close> dict holds at most
  the keys \<^verbatim>\<open>'destination'\<close> and \<^verbatim>\<open>'name'\<close>, the two that the modifier decorators of
  the module write.
\<close>

datatype kind = KInstance | KClass "ref list" | KModule | KFunction | KBuiltin

text \<open>
  \<open>KClass anc\<close>: \<open>anc\<close> is \<^verbatim>\<open>cls.__mro__[1:]\<close>, the proper ancestors, nearest first.
  \<open>KFunction\<close> is a function written in Python, \<open>KBuiltin\<close> a method of a built-in class
  such as \<^verbatim>\<open>object.__init__\<close>.
\<close>

record pyobj =
  ob_kind :: kind
  ob_type :: ref
  ob_name :: string
  ob_dict :: "(string \<times> pyval) list"

type_synonym heap = "ref \<Rightarrow> pyobj"

definition object_ref :: ref where
  "object_ref = 0"

definition type_ref :: ref where
  "type_ref = 1"

definition function_ref :: ref where
  "function_ref = 2"

definition module_ref :: ref where
  "module_ref = 3"

definition wrapper_ref :: ref where
  "wrapper_ref = 4"

definition immutable_type :: "ref \<Rightarrow> bool" where
  \<comment> \<open>the built-in classes, whose attributes cannot be set or deleted\<close>
  "immutable_type r = (r \<in> set [object_ref, type_ref, function_ref, module_ref, wrapper_ref])"

subsection \<open>Built-in operations\<close>

definition getmro :: "heap \<Rightarrow> ref \<Rightarrow> ref list" where
  \<comment> \<open>\<^verbatim>\<open>inspect.getmro(cls)\<close>: the class itself, then its ancestors\<close>
  "getmro h r = (case ob_kind (h r) of KClass anc \<Rightarrow> r # anc | _ \<Rightarrow> [])"

definition isclass :: "heap \<Rightarrow> pyval \<Rightarrow> bool" where
  \<comment> \<open>\<^verbatim>\<open>isinstance(v, type)\<close>\<close>
  "isclass h v = (case v of PRef r \<Rightarrow> (case ob_kind (h r) of KClass _ \<Rightarrow> True | _ \<Rightarrow> False)
                  | _ \<Rightarrow> False)"

definition ismodule :: "heap \<Rightarrow> pyval \<Rightarrow> bool" where
  \<comment> \<open>\<^verbatim>\<open>isinstance(v, types.ModuleType)\<close>\<close>
  "ismodule h v = (case v of PRef r \<Rightarrow> ob_kind (h r) = KModule | _ \<Rightarrow> False)"

definition has_dict :: "heap \<Rightarrow> ref \<Rightarrow> bool" where
  \<comment> \<open>a direct instance of \<^verbatim>\<open>object\<close> and a built-in method have no \<^verbatim>\<open>__dict__\<close>\<close>
  "has_dict h r =
     (case ob_kind (h r) of
        KInstance \<Rightarrow> ob_type (h r) \<noteq> object_ref
      | KBuiltin \<Rightarrow> False
      | _ \<Rightarrow> True)"

definition own_dict :: "heap \<Rightarrow> ref \<Rightarrow> (string \<times> pyval) list" where
  \<comment> \<open>the \<^verbatim>\<open>__dict__\<close> of an object, empty for an object that has none\<close>
  "own_dict h r = (if has_dict h r then ob_dict (h r) else [])"

fun lookup_first :: "heap \<Rightarrow> ref list \<Rightarrow> string \<Rightarrow> pyval option" where
  \<comment> \<open>the first \<^verbatim>\<open>__dict__\<close> along a linearisation that has the name, as stored\<close>
  "lookup_first h [] n = None"
| "lookup_first h (c # cs) n =
     (case map_of (ob_dict (h c)) n of Some v \<Rightarrow> Some v | None \<Rightarrow> lookup_first h cs n)"

definition type_lookup :: "heap \<Rightarrow> ref \<Rightarrow> string \<Rightarrow> pyval option" where
  \<comment> \<open>what the type of an object stores under a name, along the type's linearisation\<close>
  "type_lookup h r n = lookup_first h (getmro h (ob_type (h r))) n"

definition is_data_descriptor :: "pyval \<Rightarrow> bool" where
  \<comment> \<open>the descriptors that define \<^verbatim>\<open>__set__\<close>\<close>
  "is_data_descriptor v = (case v of PProperty _ \<Rightarrow> True | PNameDescr \<Rightarrow> True | _ \<Rightarrow> False)"

definition bind_instance :: "heap \<Rightarrow> pyval \<Rightarrow> ref \<Rightarrow> pyval" where
  \<comment> \<open>\<^verbatim>\<open>d.__get__(o, type(o))\<close> for a value \<open>d\<close> found on the type of \<open>o\<close>\<close>
  "bind_instance h d r =
     (case d of
        PRef f \<Rightarrow>
          (case ob_kind (h f) of
             KFunction \<Rightarrow> PBound d (PRef r)
           | KBuiltin \<Rightarrow> PMethodWrapper d (PRef r)
           | _ \<Rightarrow> d)
      | PClassmethod g \<Rightarrow> PBound g (PRef (ob_type (h r)))
      | PStaticmethod g \<Rightarrow> g
      | PProperty g \<Rightarrow> PCall g (PRef r)
      | PNameDescr \<Rightarrow> PStr (ob_name (h r))
      | _ \<Rightarrow> d)"

definition bind_class :: "pyval \<Rightarrow> ref \<Rightarrow> pyval" where
  \<comment> \<open>\<^verbatim>\<open>d.__get__(None, cls)\<close> for a value \<open>d\<close> found along the linearisation of \<open>cls\<close>:
      functions, properties and the name descriptor return themselves\<close>
  "bind_class d c =
     (case d of
        PClassmethod g \<Rightarrow> PBound g (PRef c)
      | PStaticmethod g \<Rightarrow> g
      | _ \<Rightarrow> d)"

definition builtin_attr :: "pyval \<Rightarrow> string \<Rightarrow> error + pyval" where
  \<comment> \<open>attributes of the values that are not objects of the store; of the attributes that
      the built-in types give them only these are modelled\<close>
  "builtin_attr v n =
     (case v of
        PBound f s \<Rightarrow> (if n = ''__func__'' then Inr f else if n = ''__self__'' then Inr s
                         else Inl AttributeError)
      | PMethodWrapper f s \<Rightarrow> (if n = ''__self__'' then Inr s else Inl AttributeError)
      | PClassmethod f \<Rightarrow> (if n = ''__func__'' then Inr f else Inl AttributeError)
      | PStaticmethod f \<Rightarrow> (if n = ''__func__'' then Inr f else Inl AttributeError)
      | PProperty g \<Rightarrow> (if n = ''fget'' then Inr g else Inl AttributeError)
      | _ \<Rightarrow> Inl AttributeError)"

definition object_getattribute :: "heap \<Rightarrow> pyval \<Rightarrow> string \<Rightarrow> error + pyval" where
  \<comment> \<open>\<^verbatim>\<open>object.__getattribute__(o, n)\<close>: a data descriptor of the type, then the own
      \<^verbatim>\<open>__dict__\<close> as stored, then any other attribute of the type, bound to \<open>o\<close>. For a
      class \<open>o\<close> the type is its metaclass, and the ancestors of \<open>o\<close> are not searched\<close>
  "object_getattribute h v n =
     (case v of
        PRef r \<Rightarrow>
          (case type_lookup h r n of
             Some d \<Rightarrow>
               (if is_data_descriptor d then Inr (bind_instance h d r)
                else (case map_of (own_dict h r) n of
                        Some x \<Rightarrow> Inr x
                      | None \<Rightarrow> Inr (bind_instance h d r)))
           | None \<Rightarrow>
               (case map_of (own_dict h r) n of
                  Some x \<Rightarrow> Inr x
                | None \<Rightarrow> Inl AttributeError))
      | _ \<Rightarrow> builtin_attr v n)"

definition type_getattribute :: "heap \<Rightarrow> ref \<Rightarrow> ref list \<Rightarrow> string \<Rightarrow> error + pyval" where
  \<comment> \<open>\<^verbatim>\<open>type.__getattribute__(cls, n)\<close>: a data descriptor of the metaclass, then the
      linearisation of the class itself with \<^verbatim>\<open>__get__(None, cls)\<close> applied, then any other
      attribute of the metaclass, bound to the class\<close>
  "type_getattribute h r anc n =
     (case type_lookup h r n of
        Some d \<Rightarrow>
          (if is_data_descriptor d then Inr (bind_instance h d r)
           else (case lookup_first h (r # anc) n of
                   Some a \<Rightarrow> Inr (bind_class a r)
                 | None \<Rightarrow> Inr (bind_instance h d r)))
      | None \<Rightarrow>
          (case lookup_first h (r # anc) n of
             Some a \<Rightarrow> Inr (bind_class a r)
           | None \<Rightarrow> Inl AttributeError))"

fun py_getattr :: "heap \<Rightarrow> pyval \<Rightarrow> string \<Rightarrow> error + pyval" where
  \<comment> \<open>\<^verbatim>\<open>getattr(o, n)\<close>: \<^verbatim>\<open>type.__getattribute__\<close> for a class,
      \<^verbatim>\<open>object.__getattribute__\<close> for any other object of the store; a bound method
      passes the names it does not have on to its function\<close>
  "py_getattr h (PRef r) n =
     (case ob_kind (h r) of
        KClass anc \<Rightarrow> type_getattribute h r anc n
      | _ \<Rightarrow> object_getattribute h (PRef r) n)"
| "py_getattr h (PBound f s) n =
     (case builtin_attr (PBound f s) n of Inr x \<Rightarrow> Inr x | Inl _ \<Rightarrow> py_getattr h f n)"
| "py_getattr h v n = builtin_attr v n"

declare py_getattr.simps [simp del]

definition getattr_default :: "heap \<Rightarrow> pyval \<Rightarrow> string \<Rightarrow> pyval \<Rightarrow> pyval" where
  \<comment> \<open>\<^verbatim>\<open>getattr(o, n, d)\<close>\<close>
  "getattr_default h v n d = (case py_getattr h v n of Inr x \<Rightarrow> x | Inl _ \<Rightarrow> d)"

definition dunder_name :: "heap \<Rightarrow> pyval \<Rightarrow> error + pyval" where
  \<comment> \<open>\<^verbatim>\<open>o.__name__\<close>\<close>
  "dunder_name h v = py_getattr h v ''__name__''"

definition dict_set :: "heap \<Rightarrow> ref \<Rightarrow> string \<Rightarrow> pyval \<Rightarrow> heap" where
  \<comment> \<open>\<^verbatim>\<open>o.__dict__[n] = x\<close>: a new key goes last, an old key keeps its place\<close>
  "dict_set h r n x = h(r := (h r)\<lparr>ob_dict := AList.update n x (ob_dict (h r))\<rparr>)"

definition dict_del :: "heap \<Rightarrow> ref \<Rightarrow> string \<Rightarrow> heap" where
  \<comment> \<open>\<^verbatim>\<open>del o.__dict__[n]\<close>\<close>
  "dict_del h r n = h(r := (h r)\<lparr>ob_dict := AList.delete n (ob_dict (h r))\<rparr>)"

definition name_set :: "heap \<Rightarrow> ref \<Rightarrow> string \<Rightarrow> heap" where
  \<comment> \<open>what the \<^verbatim>\<open>__name__\<close> descriptor writes\<close>
  "name_set h r s = h(r := (h r)\<lparr>ob_name := s\<rparr>)"

definition py_setattr :: "heap \<Rightarrow> pyval \<Rightarrow> string \<Rightarrow> pyval \<Rightarrow> error + heap" where
  \<comment> \<open>\<^verbatim>\<open>setattr(o, n, x)\<close>: a built-in class refuses (TypeError); a data descriptor of the
      type takes the write: a property without setter raises AttributeError, the name
      descriptor takes a string only; otherwise the own \<^verbatim>\<open>__dict__\<close> is written, and an
      object without one raises AttributeError\<close>
  "py_setattr h v n x =
     (case v of
        PRef r \<Rightarrow>
          (if isclass h v \<and> immutable_type r then Inl TypeError
           else (case type_lookup h r n of
                   Some (PProperty g) \<Rightarrow> Inl AttributeError
                 | Some PNameDescr \<Rightarrow>
                     (case x of PStr s \<Rightarrow> Inr (name_set h r s) | _ \<Rightarrow> Inl TypeError)
                 | _ \<Rightarrow>
                     (if has_dict h r then Inr (dict_set h r n x) else Inl AttributeError)))
      | _ \<Rightarrow> Inl AttributeError)"

definition py_delattr :: "heap \<Rightarrow> pyval \<Rightarrow> string \<Rightarrow> error + heap" where
  \<comment> \<open>\<^verbatim>\<open>delattr(o, n)\<close>: a built-in class refuses (TypeError); a property without deleter
      raises AttributeError and the name descriptor TypeError; otherwise the name is
      removed from the own \<^verbatim>\<open>__dict__\<close>, with AttributeError when it is not there, also
      when the type or an ancestor defines it\<close>
  "py_delattr h v n =
     (case v of
        PRef r \<Rightarrow>
          (if isclass h v \<and> immutable_type r then Inl TypeError
           else (case type_lookup h r n of
                   Some (PProperty g) \<Rightarrow> Inl AttributeError
                 | Some PNameDescr \<Rightarrow> Inl TypeError
                 | _ \<Rightarrow>
                     (if map_of (own_dict h r) n = None then Inl AttributeError
                      else Inr (dict_del h r n))))
      | _ \<Rightarrow> Inl AttributeError)"

fun truthy :: "pyval \<Rightarrow> bool" where
  "truthy PNone = False"
| "truthy (PBool b) = b"
| "truthy (PInt i) = (i \<noteq> 0)"
| "truthy (PStr s) = (s \<noteq> [])"
| "truthy (PTuple xs) = (xs \<noteq> [])"
| "truthy (PList xs) = (xs \<noteq> [])"
| "truthy (PDatas d) = (d \<noteq> [])"
| "truthy _ = True"

fun py_elems :: "pyval \<Rightarrow> error + pyval list" where
  \<comment> \<open>the items of a sequence; a string is the sequence of its characters\<close>
  "py_elems (PTuple xs) = Inr xs"
| "py_elems (PList xs) = Inr xs"
| "py_elems (PStr s) = Inr (map (\<lambda>c. PStr [c]) s)"
| "py_elems _ = Inl TypeError"

definition py_len :: "pyval \<Rightarrow> error + nat" where
  "py_len v = (case py_elems v of Inl e \<Rightarrow> Inl e | Inr xs \<Rightarrow> Inr (length xs))"

fun iadd_tuple :: "pyval \<Rightarrow> pyval \<Rightarrow> error + pyval" where
  \<comment> \<open>\<^verbatim>\<open>ids += (x,)\<close>\<close>
  "iadd_tuple (PTuple xs) x = Inr (PTuple (xs @ [x]))"
| "iadd_tuple (PList xs) x = Inr (PList (xs @ [x]))"
| "iadd_tuple _ x = Inl TypeError"

fun slice_butlast :: "pyval \<Rightarrow> error + pyval" where
  \<comment> \<open>\<^verbatim>\<open>ids[:-1]\<close>\<close>
  "slice_butlast (PTuple xs) = Inr (PTuple (butlast xs))"
| "slice_butlast (PList xs) = Inr (PList (butlast xs))"
| "slice_butlast (PStr s) = Inr (PStr (butlast s))"
| "slice_butlast _ = Inl TypeError"

subsection \<open>Names of the internal attributes\<close>

definition digit_char :: "nat \<Rightarrow> char" where
  "digit_char d = ''0123456789'' ! d"

fun str_nat :: "nat \<Rightarrow> string" where
  \<comment> \<open>\<^verbatim>\<open>str(n)\<close> of a length\<close>
  "str_nat n = (if n < 10 then [digit_char n] else str_nat (n div 10) @ [digit_char (n mod 10)])"

declare str_nat.simps [simp del]

definition CREATED :: "string \<Rightarrow> string" where
  "CREATED n = ''_monkey_created_'' @ n"

definition ORIGINAL_IDS :: "string \<Rightarrow> string" where
  "ORIGINAL_IDS n = ''_monkey_ids_'' @ n"

definition ORIGINAL_ITEM :: "string \<Rightarrow> nat \<Rightarrow> string" where
  "ORIGINAL_ITEM n k = ''_monkey_item_'' @ n @ ''_'' @ str_nat k"

definition DECORATOR_DATA :: string where
  "DECORATOR_DATA = ''_monkey_decorator_data''"

section \<open>MemberResolver and PatchStack\<close>

fun first_raw :: "heap \<Rightarrow> pyval list \<Rightarrow> string \<Rightarrow> error + pyval" where
  \<comment> \<open>the loop of \<^verbatim>\<open>get_attribute\<close>: the first object whose raw read succeeds\<close>
  "first_raw h [] n = Inl AttributeError"
| "first_raw h (v # vs) n =
     (case object_getattribute h v n of Inr x \<Rightarrow> Inr x | Inl _ \<Rightarrow> first_raw h vs n)"

definition get_attribute :: "heap \<Rightarrow> pyval \<Rightarrow> string \<Rightarrow> error + pyval" where
  "get_attribute h v n =
     (let objs = (case v of PRef r \<Rightarrow> (if isclass h v then map PRef (getmro h r) else [v])
                  | _ \<Rightarrow> [v])
      in first_raw h objs n)"

text \<open>
  \<^verbatim>\<open>apply\<close> (here \<open>apply_patch\<close>: \<open>apply\<close> is a reserved word) and
  \<^verbatim>\<open>revert\<close> return the store they leave behind together with the
  exception that ended the call, if any: a call that raises keeps the writes it made
  before.
\<close>

definition apply_patch :: "heap \<Rightarrow> patch \<Rightarrow> string \<Rightarrow> error option \<times> heap" where
  "apply_patch h p tag =
     (case get_attribute h (destination p) (name p) of
        Inl _ \<Rightarrow>
          (case py_setattr h (destination p) (CREATED (name p)) (PBool True) of
             Inl e \<Rightarrow> (Some e, h)
           | Inr h1 \<Rightarrow>
               (case py_setattr h1 (destination p) (name p) (obj p) of
                  Inl e \<Rightarrow> (Some e, h1)
                | Inr h2 \<Rightarrow> (None, h2)))
      | Inr target \<Rightarrow>
          (let original_ids = ORIGINAL_IDS (name p);
               ids = getattr_default h (destination p) original_ids (PTuple [])
           in case py_len ids of
                Inl e \<Rightarrow> (Some e, h)
              | Inr k \<Rightarrow>
                  (case py_setattr h (destination p) (ORIGINAL_ITEM (name p) k) target of
                     Inl e \<Rightarrow> (Some e, h)
                   | Inr h1 \<Rightarrow>
                       (case iadd_tuple ids (PStr tag) of
                          Inl e \<Rightarrow> (Some e, h1)
                        | Inr ids' \<Rightarrow>
                            (case py_setattr h1 (destination p) original_ids ids' of
                               Inl e \<Rightarrow> (Some e, h1)
                             | Inr h2 \<Rightarrow>
                                 (case py_setattr h2 (destination p) (name p) (obj p) of
                                    Inl e \<Rightarrow> (Some e, h2)
                                  | Inr h3 \<Rightarrow> (None, h3)))))))"

definition revert :: "heap \<Rightarrow> patch \<Rightarrow> error option \<times> heap" where
  "revert h p =
     (if truthy (getattr_default h (destination p) (CREATED (name p)) (PBool False)) then
        (case py_delattr h (destination p) (name p) of
           Inl e \<Rightarrow> (Some e, h)
         | Inr h1 \<Rightarrow> (None, h1))
      else
        (let original_ids = ORIGINAL_IDS (name p) in
         case (case py_getattr h (destination p) original_ids of
                 Inl e \<Rightarrow> Inl e
               | Inr ids \<Rightarrow> (if \<not> truthy ids then Inl AttributeError else Inr ids)) of
           Inl _ \<Rightarrow>
             (case dunder_name h (destination p) of
                Inl e \<Rightarrow> (Some e, h)
              | Inr _ \<Rightarrow> (Some RuntimeError, h))
         | Inr ids \<Rightarrow>
             (case py_len ids of
                Inl e \<Rightarrow> (Some e, h)
              | Inr k \<Rightarrow>
                  (let original_item = ORIGINAL_ITEM (name p) (k - 1) in
                   case py_getattr h (destination p) original_item of
                     Inl e \<Rightarrow> (Some e, h)
                   | Inr attr \<Rightarrow>
                       (case py_setattr h (destination p) (name p) attr of
                          Inl e \<Rightarrow> (Some e, h)
                        | Inr h1 \<Rightarrow>
                            (case py_delattr h1 (destination p) original_item of
                               Inl e \<Rightarrow> (Some e, h1)
                             | Inr h2 \<Rightarrow>
                                 (case slice_butlast ids of
                                    Inl e \<Rightarrow> (Some e, h2)
                                  | Inr ids' \<Rightarrow>
                                      (case py_setattr h2 (destination p) original_ids ids' of
                                         Inl e \<Rightarrow> (Some e, h2)
                                       | Inr h3 \<Rightarrow> (None, h3)))))))))"

fun scan_ids :: "heap \<Rightarrow> pyval \<Rightarrow> string \<Rightarrow> string \<Rightarrow> (nat \<times> pyval) list \<Rightarrow> error + pyval" where
  \<comment> \<open>the loop of \<^verbatim>\<open>get_original_attribute\<close> over the reversed enumeration\<close>
  "scan_ids h v n tag [] = Inl AttributeError"
| "scan_ids h v n tag ((i, original_id) # rest) =
     (if original_id = PStr tag then py_getattr h v (ORIGINAL_ITEM n i)
      else scan_ids h v n tag rest)"

definition get_original_attribute :: "heap \<Rightarrow> pyval \<Rightarrow> string \<Rightarrow> string \<Rightarrow> error + pyval" where
  "get_original_attribute h v n tag =
     (case (case py_getattr h v (ORIGINAL_IDS n) of
              Inl e \<Rightarrow> Inl e
            | Inr ids \<Rightarrow> (if \<not> truthy ids then Inl AttributeError else Inr ids)) of
        Inl _ \<Rightarrow>
          (case dunder_name h v of Inl e \<Rightarrow> Inl e | Inr _ \<Rightarrow> Inl AttributeError)
      | Inr ids \<Rightarrow>
          (case py_elems ids of
             Inl e \<Rightarrow> Inl e
           | Inr xs \<Rightarrow> scan_ids h v n tag (rev (enumerate 0 xs))))"

section \<open>Patch objects\<close>

text \<open>
  \<^verbatim>\<open>Patch.__hash__\<close> returns \<^verbatim>\<open>hash(sorted(self.__dict__.items()))\<close>. The instance
  dict of a patch has the four keys that \<^verbatim>\<open>__init__\<close> writes. \<^verbatim>\<open>sorted\<close> returns a
  list of the (key, value) pairs; the keys differ, so the values are never compared.
  \<open>py_hash\<close> is the built-in \<^verbatim>\<open>hash\<close>: lists and dicts are unhashable, a tuple hashes
  when all its items do; \<open>hf\<close> supplies the numbers of the hashable values.
\<close>

definition patch_items :: "patch \<Rightarrow> (string \<times> pyval) list" where
  "patch_items p =
     [(''destination'', destination p), (''name'', PStr (name p)),
      (''obj'', obj p), (''settings'', settings p)]"

fun py_hash :: "(pyval \<Rightarrow> int) \<Rightarrow> pyval \<Rightarrow> error + int" where
  "py_hash hf (PList xs) = Inl TypeError"
| "py_hash hf (PDatas d) = Inl TypeError"
| "py_hash hf (PTuple xs) =
     (if list_ex (\<lambda>x. isl (py_hash hf x)) xs then Inl TypeError else Inr (hf (PTuple xs)))"
| "py_hash hf v = Inr (hf v)"

definition Patch_hash :: "(pyval \<Rightarrow> int) \<Rightarrow> patch \<Rightarrow> error + int" where
  "Patch_hash hf p =
     py_hash hf (PList (map (\<lambda>(k, v). PTuple [PStr k, v]) (sort_key fst (patch_items p))))"

section \<open>RegistrationMetadata\<close>

fun get_base :: "nat \<Rightarrow> heap \<Rightarrow> pyval \<Rightarrow> pyval option" where
  \<comment> \<open>\<^verbatim>\<open>_get_base\<close>; the first argument bounds the depth of the recursion, \<open>None\<close>
      when the wrappers nest deeper (CPython ends such a chain with RecursionError)\<close>
  "get_base 0 h v = None"
| "get_base (Suc k) h v =
     (case py_getattr h v ''__func__'' of
        Inr f \<Rightarrow> get_base k h f
      | Inl _ \<Rightarrow>
          (case v of
             PProperty g \<Rightarrow> get_base k h g
           | PClassmethod g \<Rightarrow> get_base k h (bind_class v object_ref)
           | PStaticmethod g \<Rightarrow> get_base k h (bind_class v object_ref)
           | _ \<Rightarrow> Some v))"

text \<open>
  \<^verbatim>\<open>get_decorator_data\<close> as \<^verbatim>\<open>create_patches\<close> and \<^verbatim>\<open>find_patches\<close> call it, with
  \<^verbatim>\<open>set_default=False\<close>. For a class the attribute holds a dict keyed by class;
  \<^verbatim>\<open>setdefault\<close> reads the entry of this class and \<open>None\<close> when there is none. It also
  records the missing key with \<open>None\<close> in that dict, which reads the same as a missing
  key everywhere in the module; the store does not track that entry.
\<close>

definition get_decorator_data :: "heap \<Rightarrow> pyval \<Rightarrow> error + pyval" where
  "get_decorator_data h v =
     (if isclass h v then
        (case getattr_default h v DECORATOR_DATA (PDatas []) of
           PDatas datas \<Rightarrow>
             (case v of PRef r \<Rightarrow>
                (case map_of datas r of Some data \<Rightarrow> Inr data | None \<Rightarrow> Inr PNone)
              | _ \<Rightarrow> Inr PNone)
         | _ \<Rightarrow> Inl AttributeError)
      else Inr (getattr_default h v DECORATOR_DATA PNone))"


definition data_patches :: "pyval \<Rightarrow> error + patch list" where
  \<comment> \<open>\<^verbatim>\<open>decorator_data.patches\<close>\<close>
  "data_patches data = (case data of PData d \<Rightarrow> Inr (patches d) | _ \<Rightarrow> Inl AttributeError)"


section \<open>PatchSetBuilder\<close>

type_synonym member_filter = "heap \<Rightarrow> string \<Rightarrow> pyval \<Rightarrow> bool"

definition startswith_underscore :: "string \<Rightarrow> bool" where
  "startswith_underscore n = (case n of [] \<Rightarrow> False | c # _ \<Rightarrow> c = CHR ''_'')"

definition default_filter :: member_filter where
  "default_filter h n v = (\<not> (ismodule h v \<or> startswith_underscore n))"

definition true_filter :: member_filter where
  \<comment> \<open>\<^verbatim>\<open>_true\<close>\<close>
  "true_filter h n v = True"

definition the_filter :: "member_filter option \<Rightarrow> member_filter" where
  \<comment> \<open>\<^verbatim>\<open>if filter is None: filter = _true\<close>\<close>
  "the_filter f = (case f of None \<Rightarrow> true_filter | Some g \<Rightarrow> g)"

fun dict_items :: "heap \<Rightarrow> pyval \<Rightarrow> (string \<times> pyval) list" where
  \<comment> \<open>\<^verbatim>\<open>getattr(root, '__dict__', {}).items()\<close>; a bound method shows the
      \<^verbatim>\<open>__dict__\<close> of its function\<close>
  "dict_items h (PRef r) = own_dict h r"
| "dict_items h (PBound f s) = dict_items h f"
| "dict_items h v = []"

fun scan_items ::
  "(string \<Rightarrow> pyval \<Rightarrow> bool) \<Rightarrow> (string \<times> pyval) list \<Rightarrow>
   (string \<times> pyval) list \<times> string set \<Rightarrow> (string \<times> pyval) list \<times> string set" where
  \<comment> \<open>the inner loop of \<^verbatim>\<open>_get_members\<close> over one \<^verbatim>\<open>__dict__\<close>: \<open>members\<close> and \<open>seen\<close>\<close>
  "scan_items f [] ms = ms"
| "scan_items f ((n, v) # items) (members, seen) =
     scan_items f items
       (if n \<notin> seen \<and> f n v then members @ [(n, v)] else members, insert n seen)"

fun scan_roots ::
  "heap \<Rightarrow> (string \<Rightarrow> pyval \<Rightarrow> bool) \<Rightarrow> pyval list \<Rightarrow>
   (string \<times> pyval) list \<times> string set \<Rightarrow> (string \<times> pyval) list \<times> string set" where
  \<comment> \<open>the loop \<^verbatim>\<open>for root in roots\<close>\<close>
  "scan_roots h f [] ms = ms"
| "scan_roots h f (root # roots) ms = scan_roots h f roots (scan_items f (dict_items h root) ms)"

definition member_roots :: "heap \<Rightarrow> bool \<Rightarrow> pyval \<Rightarrow> pyval list" where
  "member_roots h traverse_bases v =
     (case v of
        PRef r \<Rightarrow>
          (if traverse_bases \<and> isclass h v
           then map PRef (filter (\<lambda>base. base \<noteq> type_ref \<and> base \<noteq> object_ref) (getmro h r))
           else [v])
      | _ \<Rightarrow> [v])"

definition step_members :: "heap \<Rightarrow> bool \<Rightarrow> member_filter \<Rightarrow> pyval \<Rightarrow> (string \<times> pyval) list" where
  \<comment> \<open>one turn of the \<^verbatim>\<open>while stack\<close> loop: the sorted members of one object\<close>
  "step_members h traverse_bases f v =
     sort_key fst (fst (scan_roots h (f h) (member_roots h traverse_bases v) ([], {})))"

fun get_members_loop ::
  "nat \<Rightarrow> heap \<Rightarrow> bool \<Rightarrow> member_filter \<Rightarrow> bool \<Rightarrow> pyval list \<Rightarrow>
   (string \<times> pyval) list \<Rightarrow> (string \<times> pyval) list option" where
  "get_members_loop k h tb f recursive [] out = Some out"
| "get_members_loop 0 h tb f recursive (v # stack) out = None"
| "get_members_loop (Suc k) h tb f recursive (v # stack) out =
     (let members = step_members h tb f v
      in get_members_loop k h tb f recursive
           (stack @ map snd (filter (\<lambda>(_, value). recursive \<and> isclass h value) members))
           (out @ members))"

definition get_members ::
  "nat \<Rightarrow> heap \<Rightarrow> pyval \<Rightarrow> bool \<Rightarrow> member_filter option \<Rightarrow> bool \<Rightarrow>
   (string \<times> pyval) list option" where
  \<comment> \<open>\<^verbatim>\<open>_get_members\<close>; the first argument bounds the turns of the loop, \<open>None\<close> when
      the loop has not ended within them\<close>
  "get_members k h v traverse_bases f recursive =
     get_members_loop k h traverse_bases (the_filter f) recursive [v] []"





section \<open>PatchDiscovery\<close>

text \<open>
  What \<^verbatim>\<open>_module_iterator\<close> asks of its host: \<open>iter_modules\<close> is
  \<^verbatim>\<open>pkgutil.iter_modules([path])\<close>, the name and the package flag of every entry of a
  path; \<open>load_module pn name\<close> is the module that \<^verbatim>\<open>'{}.{}'.format(pn, name)\<close> names,
  taken from \<^verbatim>\<open>sys.modules\<close> or imported, and \<open>None\<close> when the import raises ImportError.
  Importing is taken to leave the objects read here as they are.
\<close>

record env =
  iter_modules :: "pyval \<Rightarrow> (string \<times> bool) list"
  load_module :: "pyval \<Rightarrow> string \<Rightarrow> ref option"

text \<open>
  A generator is modelled by its trace: the modules it yields, in order, and the
  exception that ends it, if any.
\<close>

fun scan_children ::
  "env \<Rightarrow> heap \<Rightarrow> bool \<Rightarrow> pyval \<Rightarrow> (string \<times> bool) list \<Rightarrow> pyval list \<times> pyval list \<Rightarrow>
   (pyval list \<times> pyval list) \<times> error option" where
  \<comment> \<open>the two \<^verbatim>\<open>for\<close> loops over the entries of a package: \<open>stack\<close> and the yielded modules\<close>
  "scan_children E h recursive package [] acc = (acc, None)"
| "scan_children E h recursive package ((n, is_package) # rest) (stack, ys) =
     (case dunder_name h package of
        Inl e \<Rightarrow> ((stack, ys), Some e)
      | Inr pn \<Rightarrow>
          (case load_module E pn n of
             None \<Rightarrow> ((stack, ys), Some ImportError)
           | Some m \<Rightarrow>
               (if is_package then
                  (if recursive
                   then scan_children E h recursive package rest (stack @ [PRef m], ys @ [PRef m])
                   else scan_children E h recursive package rest (stack, ys))
                else scan_children E h recursive package rest (stack, ys @ [PRef m]))))"

fun module_iterator_loop ::
  "nat \<Rightarrow> env \<Rightarrow> heap \<Rightarrow> bool \<Rightarrow> pyval list \<Rightarrow> pyval list \<Rightarrow>
   (pyval list \<times> error option) option" where
  "module_iterator_loop k E h recursive [] ys = Some (ys, None)"
| "module_iterator_loop 0 E h recursive (package # stack) ys = None"
| "module_iterator_loop (Suc k) E h recursive (package # stack) ys =
     (case py_elems (getattr_default h package ''__path__'' (PList [])) of
        Inl e \<Rightarrow> Some (ys, Some e)
      | Inr paths \<Rightarrow>
          (case scan_children E h recursive package (concat (map (iter_modules E) paths))
                  (stack, ys) of
             ((stack', ys'), Some e) \<Rightarrow> Some (ys', Some e)
           | ((stack', ys'), None) \<Rightarrow> module_iterator_loop k E h recursive stack' ys'))"

definition module_iterator ::
  "nat \<Rightarrow> env \<Rightarrow> heap \<Rightarrow> pyval \<Rightarrow> bool \<Rightarrow> (pyval list \<times> error option) option" where
  \<comment> \<open>\<^verbatim>\<open>_module_iterator(root, recursive)\<close>: \<^verbatim>\<open>yield root\<close>, then the loop\<close>
  "module_iterator k E h root recursive = module_iterator_loop k E h recursive [root] [root]"

fun modules_iter ::
  "nat \<Rightarrow> env \<Rightarrow> heap \<Rightarrow> bool \<Rightarrow> pyval list \<Rightarrow> (pyval list \<times> error option) option" where
  \<comment> \<open>\<^verbatim>\<open>(module for package in modules for module in _module_iterator(package))\<close>\<close>
  "modules_iter k E h recursive [] = Some ([], None)"
| "modules_iter k E h recursive (package # packages) =
     (case module_iterator k E h package recursive of
        None \<Rightarrow> None
      | Some (ys, Some e) \<Rightarrow> Some (ys, Some e)
      | Some (ys, None) \<Rightarrow>
          (case modules_iter k E h recursive packages of
             None \<Rightarrow> None
           | Some (zs, r) \<Rightarrow> Some (ys @ zs, r)))"

fun collect_members ::
  "nat \<Rightarrow> heap \<Rightarrow> (string \<times> pyval) list \<Rightarrow> patch list \<Rightarrow> (error + patch list) option" where
  \<comment> \<open>the loop \<^verbatim>\<open>for _, value in members\<close> of \<^verbatim>\<open>find_patches\<close>\<close>
  "collect_members k h [] out = Some (Inr out)"
| "collect_members k h ((n, v) # members) out =
     (case get_base k h v of
        None \<Rightarrow> None
      | Some base \<Rightarrow>
          (case get_decorator_data h base of
             Inl e \<Rightarrow> Some (Inl e)
           | Inr data \<Rightarrow>
               (if data = PNone then collect_members k h members out
                else (case data_patches data of
                        Inl e \<Rightarrow> Some (Inl e)
                      | Inr ps \<Rightarrow> collect_members k h members (out @ ps)))))"

fun collect_modules ::
  "nat \<Rightarrow> heap \<Rightarrow> pyval list \<Rightarrow> patch list \<Rightarrow> (error + patch list) option" where
  \<comment> \<open>the loop \<^verbatim>\<open>for module in modules_iter\<close>\<close>
  "collect_modules k h [] out = Some (Inr out)"
| "collect_modules k h (m # ms) out =
     (case get_members k h m True None True of
        None \<Rightarrow> None
      | Some members \<Rightarrow>
          (case collect_members k h members out of
             None \<Rightarrow> None
           | Some (Inl e) \<Rightarrow> Some (Inl e)
           | Some (Inr out') \<Rightarrow> collect_modules k h ms out'))"

definition find_patches ::
  "nat \<Rightarrow> env \<Rightarrow> heap \<Rightarrow> pyval list \<Rightarrow> bool \<Rightarrow> (error + patch list) option" where
  \<comment> \<open>\<^verbatim>\<open>find_patches(modules, recursive)\<close>; the first argument bounds the turns of
      every loop and the depth of \<^verbatim>\<open>_get_base\<close>. The modules are handled as the generator
      yields them, so an exception of a member comes before the one that ends the
      generator\<close>
  "find_patches k E h modules recursive =
     (case modules_iter k E h recursive modules of
        None \<Rightarrow> None
      | Some (ys, r) \<Rightarrow>
          (case collect_modules k h ys [] of
             None \<Rightarrow> None
           | Some (Inl e) \<Rightarrow> Some (Inl e)
           | Some (Inr out) \<Rightarrow>
               (case r of Some e \<Rightarrow> Some (Inl e) | None \<Rightarrow> Some (Inr out))))"

section \<open>Observations and the words of the specification\<close>

definition created_flag :: "heap \<Rightarrow> pyval \<Rightarrow> string \<Rightarrow> bool" where
  \<comment> \<open>the CreatedFlag of a slot, as \<^verbatim>\<open>revert\<close> reads it\<close>
  "created_flag h d n = truthy (getattr_default h d (CREATED n) (PBool False))"

definition original_stack :: "heap \<Rightarrow> pyval \<Rightarrow> string \<Rightarrow> pyval" where
  \<comment> \<open>the tags of the OriginalSlot stack of a slot, as \<^verbatim>\<open>apply\<close> reads them\<close>
  "original_stack h d n = getattr_default h d (ORIGINAL_IDS n) (PTuple [])"

definition member_patches :: "nat \<Rightarrow> heap \<Rightarrow> string \<times> pyval \<Rightarrow> patch list" where
  \<comment> \<open>the \<^verbatim>\<open>patches\<close> list of the metadata on the unwrapped identity of a member, empty
      when it carries none\<close>
  "member_patches k h m =
     (case get_base k h (snd m) of
        None \<Rightarrow> []
      | Some base \<Rightarrow>
          (case get_decorator_data h base of Inr (PData d) \<Rightarrow> patches d | _ \<Rightarrow> []))"

definition member_ok :: "nat \<Rightarrow> heap \<Rightarrow> string \<times> pyval \<Rightarrow> bool" where
  \<comment> \<open>the member unwraps within the bound and carries a \<^verbatim>\<open>DecoratorData\<close> or nothing\<close>
  "member_ok k h m =
     (case get_base k h (snd m) of
        None \<Rightarrow> False
      | Some base \<Rightarrow>
          (case get_decorator_data h base of
             Inr PNone \<Rightarrow> True | Inr (PData d) \<Rightarrow> True | _ \<Rightarrow> False))"

definition module_members :: "nat \<Rightarrow> heap \<Rightarrow> pyval \<Rightarrow> (string \<times> pyval) list" where
  \<comment> \<open>what \<^verbatim>\<open>_get_members(module, filter=None)\<close> returns: the members of the module in
      name order, then those of every class among them, with its ancestors, and so on\<close>
  "module_members k h m = (case get_members k h m True None True of None \<Rightarrow> [] | Some ms \<Rightarrow> ms)"

definition module_ok :: "nat \<Rightarrow> heap \<Rightarrow> pyval \<Rightarrow> bool" where
  "module_ok k h m =
     (get_members k h m True None True \<noteq> None \<and> list_all (member_ok k h) (module_members k h m))"

text \<open>
  In the words of the specification of \<^verbatim>\<open>find\<close>: for every yielded module, the
  top-level members only, each giving the \<^verbatim>\<open>patches\<close> of its metadata.
\<close>

definition toplevel_members :: "heap \<Rightarrow> pyval \<Rightarrow> (string \<times> pyval) list" where
  "toplevel_members h m = sort_key fst (dict_items h m)"

definition find_toplevel :: "nat \<Rightarrow> heap \<Rightarrow> pyval list \<Rightarrow> patch list" where
  "find_toplevel k h ys = concat (map (\<lambda>m. concat (map (member_patches k h) (toplevel_members h m))) ys)"


definition undecorated :: "nat \<Rightarrow> heap \<Rightarrow> pyval \<Rightarrow> bool" where
  \<comment> \<open>the value unwraps within the bound and its identity carries no metadata\<close>
  "undecorated k h v =
     (case get_base k h v of None \<Rightarrow> False | Some base \<Rightarrow> get_decorator_data h base = Inr PNone)"

text \<open>
  A destination takes the writes of \<^verbatim>\<open>apply\<close> and \<^verbatim>\<open>revert\<close> on a member when it
  is not a built-in class, has a \<^verbatim>\<open>__dict__\<close>, is not among the ancestors of its own type,
  and the type keeps no data descriptor under the member name or under a name of the
  engine (the names that begin with \<^verbatim>\<open>_monkey_\<close>).
\<close>

definition descriptor_names :: "heap \<Rightarrow> ref \<Rightarrow> string list" where
  \<comment> \<open>the names under which the linearisation of the type of an object stores a data
      descriptor\<close>
  "descriptor_names h r =
     concat (map (\<lambda>c. map fst (filter (\<lambda>(k, v). is_data_descriptor v) (ob_dict (h c))))
               (getmro h (ob_type (h r))))"

definition internal_name :: "string \<Rightarrow> bool" where
  "internal_name k = (take 8 k = ''_monkey_'')"

definition patchable :: "heap \<Rightarrow> ref \<Rightarrow> string \<Rightarrow> bool" where
  "patchable h r n =
     (\<not> (isclass h (PRef r) \<and> immutable_type r) \<and> has_dict h r \<and>
      r \<notin> set (getmro h (ob_type (h r))) \<and>
      list_all (\<lambda>k. k \<noteq> n \<and> \<not> internal_name k) (descriptor_names h r))"




section \<open>Example stores\<close>

definition empty_obj :: pyobj where
  "empty_obj = \<lparr>ob_kind = KInstance, ob_type = object_ref, ob_name = [], ob_dict = []\<rparr>"

definition func_obj :: "string \<Rightarrow> (string \<times> pyval) list \<Rightarrow> pyobj" where
  "func_obj n d = \<lparr>ob_kind = KFunction, ob_type = function_ref, ob_name = n, ob_dict = d\<rparr>"

definition builtin_obj :: "string \<Rightarrow> pyobj" where
  "builtin_obj n = \<lparr>ob_kind = KBuiltin, ob_type = wrapper_ref, ob_name = n, ob_dict = []\<rparr>"

definition class_obj :: "string \<Rightarrow> ref list \<Rightarrow> (string \<times> pyval) list \<Rightarrow> pyobj" where
  "class_obj n anc d = \<lparr>ob_kind = KClass anc, ob_type = type_ref, ob_name = n, ob_dict = d\<rparr>"

definition module_obj :: "(string \<times> pyval) list \<Rightarrow> pyobj" where
  "module_obj d = \<lparr>ob_kind = KModule, ob_type = module_ref, ob_name = [], ob_dict = d\<rparr>"

definition builtin_heap :: heap where
  \<comment> \<open>the built-in classes with the attributes that the examples below can reach:
      \<^verbatim>\<open>object.__init__\<close> at 5, \<^verbatim>\<open>type.__init__\<close> at 6, \<^verbatim>\<open>type.__call__\<close> at 7,
      \<^verbatim>\<open>object.__repr__\<close> at 8, \<^verbatim>\<open>function.__call__\<close> at 9, and the \<^verbatim>\<open>__name__\<close>
      descriptors of \<^verbatim>\<open>type\<close>, \<^verbatim>\<open>function\<close> and \<^verbatim>\<open>wrapper_descriptor\<close>. Every other
      reference is a bare instance of \<^verbatim>\<open>object\<close>\<close>
  "builtin_heap = (\<lambda>_. empty_obj)
     (object_ref := class_obj ''object'' [] [(''__init__'', PRef 5), (''__repr__'', PRef 8)],
      type_ref := class_obj ''type'' [object_ref]
                    [(''__init__'', PRef 6), (''__call__'', PRef 7), (''__name__'', PNameDescr)],
      function_ref := class_obj ''function'' [object_ref]
                        [(''__call__'', PRef 9), (''__name__'', PNameDescr)],
      module_ref := class_obj ''module'' [object_ref] [],
      wrapper_ref := class_obj ''wrapper_descriptor'' [object_ref] [(''__name__'', PNameDescr)],
      5 := builtin_obj ''__init__'',
      6 := builtin_obj ''__init__'',
      7 := builtin_obj ''__call__'',
      8 := builtin_obj ''__repr__'',
      9 := builtin_obj ''__call__'')"

definition fan_heap :: heap where
  \<comment> \<open>\<^verbatim>\<open>class Fan: max_power = 1\<close> at 10 and \<^verbatim>\<open>fan = Fan()\<close> at 11\<close>
  "fan_heap = builtin_heap
     (10 := class_obj ''Fan'' [object_ref]
              [(''__module__'', PStr ''fans''), (''max_power'', PInt 1), (''__doc__'', PNone)],
      11 := \<lparr>ob_kind = KInstance, ob_type = 10, ob_name = [], ob_dict = []\<rparr>)"

definition template_heap :: heap where
  \<comment> \<open>the template class at 20 with \<^verbatim>\<open>foo\<close>, \<^verbatim>\<open>_bar\<close> and the nested class \<^verbatim>\<open>Inner\<close> at 23
      with \<^verbatim>\<open>a\<close> and \<^verbatim>\<open>b\<close>; a destination class at 30 that has a class \<^verbatim>\<open>Inner\<close> (at 31), and
      a destination class at 32 that has none\<close>
  "template_heap = builtin_heap
     (20 := class_obj ''Template'' [object_ref]
              [(''__module__'', PStr ''patches''), (''foo'', PRef 21), (''_bar'', PRef 22),
               (''Inner'', PRef 23), (''__doc__'', PNone)],
      21 := func_obj ''foo'' [],
      22 := func_obj ''_bar'' [],
      23 := class_obj ''Inner'' [object_ref]
              [(''__module__'', PStr ''patches''), (''a'', PRef 24), (''b'', PRef 25),
               (''__doc__'', PNone)],
      24 := func_obj ''a'' [],
      25 := func_obj ''b'' [],
      30 := class_obj ''Host'' [object_ref]
              [(''__module__'', PStr ''host''), (''Inner'', PRef 31), (''__doc__'', PNone)],
      31 := class_obj ''Inner'' [object_ref]
              [(''__module__'', PStr ''host''), (''a'', PInt 0), (''__doc__'', PNone)],
      32 := class_obj ''Plain'' [object_ref]
              [(''__module__'', PStr ''host''), (''__doc__'', PNone)])"



definition patch_f :: patch where
  "patch_f = Patch (PRef 10) ''f'' (PRef 53) PNone"

definition patch_g :: patch where
  "patch_g = Patch (PRef 10) ''g'' (PRef 54) PNone"

definition package_heap :: heap where
  \<comment> \<open>a package at 50 with the modules \<^verbatim>\<open>a\<close> at 51 and \<^verbatim>\<open>b\<close> at 52; \<^verbatim>\<open>a\<close> declares \<^verbatim>\<open>f\<close>
      and \<^verbatim>\<open>b\<close> declares \<^verbatim>\<open>g\<close>, each registered with one patch of \<^verbatim>\<open>Fan\<close>\<close>
  "package_heap = fan_heap
     (50 := module_obj [(''__name__'', PStr ''pkg''), (''__doc__'', PNone),
                        (''__path__'', PList [PStr ''/pkg''])],
      51 := module_obj [(''__name__'', PStr ''pkg.a''), (''__doc__'', PNone), (''f'', PRef 53)],
      52 := module_obj [(''__name__'', PStr ''pkg.b''), (''__doc__'', PNone), (''g'', PRef 54)],
      53 := func_obj ''f'' [(DECORATOR_DATA, PData (DecoratorData [patch_f] None None None))],
      54 := func_obj ''g'' [(DECORATOR_DATA, PData (DecoratorData [patch_g] None None None))])"

definition package_env :: env where
  "package_env =
     \<lparr>iter_modules = (\<lambda>path. if path = PStr ''/pkg'' then [(''a'', False), (''b'', False)] else []),
      load_module = (\<lambda>pn n. if pn = PStr ''pkg'' \<and> n = ''a'' then Some 51
                             else if pn = PStr ''pkg'' \<and> n = ''b'' then Some 52 else None)\<rparr>"

definition patch_m :: patch where
  "patch_m = Patch (PRef 10) ''m'' (PRef 62) PNone"

definition nested_heap :: heap where
  \<comment> \<open>a module at 60 whose only member besides its name is the class \<^verbatim>\<open>K\<close> at 61; the
      method \<^verbatim>\<open>m\<close> of \<^verbatim>\<open>K\<close> is registered with one patch\<close>
  "nested_heap = fan_heap
     (60 := module_obj [(''__name__'', PStr ''mod''), (''K'', PRef 61)],
      61 := class_obj ''K'' [object_ref] [(''m'', PRef 62)],
      62 := func_obj ''m'' [(DECORATOR_DATA, PData (DecoratorData [patch_m] None None None))])"

definition no_env :: env where
  "no_env = \<lparr>iter_modules = (\<lambda>path. []), load_module = (\<lambda>pn n. None)\<rparr>"

definition speed5 :: patch where
  "speed5 = Patch (PRef 11) ''speed'' (PInt 5) PNone"

definition speed6 :: patch where
  "speed6 = Patch (PRef 11) ''speed'' (PInt 6) PNone"

definition applied_once :: heap where
  "applied_once = snd (apply_patch fan_heap speed5 ''default'')"

definition applied_twice :: heap where
  "applied_twice = snd (apply_patch applied_once speed6 ''default'')"

definition reverted_once :: heap where
  "reverted_once = snd (revert applied_twice speed6)"

definition speed7 :: patch where
  "speed7 = Patch (PRef 10) ''speed'' (PInt 7) PNone"

definition flagged_heap :: heap where
  \<comment> \<open>\<^verbatim>\<open>apply(Patch(Fan, 'speed', 7))\<close> on a class that had no \<^verbatim>\<open>speed\<close>, then
      \<^verbatim>\<open>fan.speed = 1\<close> on the instance\<close>
  "flagged_heap = dict_set (snd (apply_patch fan_heap speed7 ''default'')) 11 ''speed'' (PInt 1)"

definition speed_x :: patch where
  "speed_x = Patch (PRef 11) ''speed'' (PInt 2) PNone"

definition speed_y :: patch where
  "speed_y = Patch (PRef 11) ''speed'' (PInt 3) PNone"

definition flagged_x :: heap where
  "flagged_x = snd (apply_patch flagged_heap speed_x ''x'')"

definition flagged_xy :: heap where
  "flagged_xy = snd (apply_patch flagged_x speed_y ''y'')"

definition flagged_reverted :: heap where
  "flagged_reverted = snd (revert flagged_xy speed_y)"

section \<open>Lemmas on the store\<close>

lemmas store_defs =
  fan_heap_def builtin_heap_def empty_obj_def class_obj_def func_obj_def builtin_obj_def
  module_obj_def object_ref_def type_ref_def function_ref_def module_ref_def wrapper_ref_def

lemma getmro_dict_set [simp]: "getmro (dict_set h r n x) = getmro h"
  by (rule ext) (simp add: getmro_def dict_set_def)

lemma getmro_dict_del [simp]: "getmro (dict_del h r n) = getmro h"
  by (rule ext) (simp add: getmro_def dict_del_def)

lemma kind_dict_set [simp]: "ob_kind (dict_set h r n x c) = ob_kind (h c)"
  by (simp add: dict_set_def)

lemma kind_dict_del [simp]: "ob_kind (dict_del h r n c) = ob_kind (h c)"
  by (simp add: dict_del_def)

lemma type_dict_set [simp]: "ob_type (dict_set h r n x c) = ob_type (h c)"
  by (simp add: dict_set_def)

lemma type_dict_del [simp]: "ob_type (dict_del h r n c) = ob_type (h c)"
  by (simp add: dict_del_def)

lemma name_dict_set [simp]: "ob_name (dict_set h r n x c) = ob_name (h c)"
  by (simp add: dict_set_def)

lemma name_dict_del [simp]: "ob_name (dict_del h r n c) = ob_name (h c)"
  by (simp add: dict_del_def)

lemma has_dict_dict_set [simp]: "has_dict (dict_set h r n x) c = has_dict h c"
  by (simp add: has_dict_def split: kind.splits)

lemma has_dict_dict_del [simp]: "has_dict (dict_del h r n) c = has_dict h c"
  by (simp add: has_dict_def split: kind.splits)

lemma isclass_dict_set [simp]: "isclass (dict_set h r n x) v = isclass h v"
  by (simp add: isclass_def split: pyval.splits)

lemma isclass_dict_del [simp]: "isclass (dict_del h r n) v = isclass h v"
  by (simp add: isclass_def split: pyval.splits)

lemma bind_instance_dict_set [simp]: "bind_instance (dict_set h r n x) d c = bind_instance h d c"
  by (simp add: bind_instance_def split: pyval.splits)

lemma bind_instance_dict_del [simp]: "bind_instance (dict_del h r n) d c = bind_instance h d c"
  by (simp add: bind_instance_def split: pyval.splits)

lemma map_of_dict_set [simp]:
  "map_of (ob_dict (dict_set h r n x c)) m =
     (if c = r \<and> m = n then Some x else map_of (ob_dict (h c)) m)"
  by (simp add: dict_set_def update_conv')

lemma map_of_dict_del [simp]:
  "map_of (ob_dict (dict_del h r n c)) m =
     (if c = r \<and> m = n then None else map_of (ob_dict (h c)) m)"
  by (simp add: dict_del_def delete_conv')

lemma map_of_own_dict_set [simp]:
  "map_of (own_dict (dict_set h r n x) c) m =
     (if c = r \<and> m = n \<and> has_dict h r then Some x else map_of (own_dict h c) m)"
  by (simp add: own_dict_def)

lemma map_of_own_dict_del [simp]:
  "map_of (own_dict (dict_del h r n) c) m =
     (if c = r \<and> m = n then None else map_of (own_dict h c) m)"
  by (simp add: own_dict_def)

lemma dict_other_dict_set: "c \<noteq> r \<Longrightarrow> ob_dict (dict_set h r n x c) = ob_dict (h c)"
  by (simp add: dict_set_def)

lemma dict_other_dict_del: "c \<noteq> r \<Longrightarrow> ob_dict (dict_del h r n c) = ob_dict (h c)"
  by (simp add: dict_del_def)

lemma lookup_first_dict_set_other [simp]:
  "m \<noteq> n \<Longrightarrow> lookup_first (dict_set h r n x) cs m = lookup_first h cs m"
  by (induction cs) (simp_all split: option.splits)

lemma lookup_first_dict_del_other [simp]:
  "m \<noteq> n \<Longrightarrow> lookup_first (dict_del h r n) cs m = lookup_first h cs m"
  by (induction cs) (simp_all split: option.splits)

lemma lookup_first_dict_set_apart:
  "r \<notin> set cs \<Longrightarrow> lookup_first (dict_set h r n x) cs m = lookup_first h cs m"
  by (induction cs) (auto split: option.splits)

lemma lookup_first_dict_del_apart:
  "r \<notin> set cs \<Longrightarrow> lookup_first (dict_del h r n) cs m = lookup_first h cs m"
  by (induction cs) (auto split: option.splits)

lemma type_lookup_dict_set_other [simp]:
  "m \<noteq> n \<Longrightarrow> type_lookup (dict_set h r n x) c m = type_lookup h c m"
  by (simp add: type_lookup_def)

lemma type_lookup_dict_del_other [simp]:
  "m \<noteq> n \<Longrightarrow> type_lookup (dict_del h r n) c m = type_lookup h c m"
  by (simp add: type_lookup_def)

lemma type_lookup_dict_set_apart:
  "r \<notin> set (getmro h (ob_type (h c))) \<Longrightarrow> type_lookup (dict_set h r n x) c m = type_lookup h c m"
  by (simp add: type_lookup_def lookup_first_dict_set_apart)

lemma type_lookup_dict_del_apart:
  "r \<notin> set (getmro h (ob_type (h c))) \<Longrightarrow> type_lookup (dict_del h r n) c m = type_lookup h c m"
  by (simp add: type_lookup_def lookup_first_dict_del_apart)

lemma object_getattribute_dict_set_other [simp]:
  "m \<noteq> n \<Longrightarrow> object_getattribute (dict_set h r n x) v m = object_getattribute h v m"
  by (simp add: object_getattribute_def split: pyval.splits option.splits)

lemma object_getattribute_dict_del_other [simp]:
  "m \<noteq> n \<Longrightarrow> object_getattribute (dict_del h r n) v m = object_getattribute h v m"
  by (simp add: object_getattribute_def split: pyval.splits option.splits)

lemma type_getattribute_dict_set_other [simp]:
  "m \<noteq> n \<Longrightarrow> type_getattribute (dict_set h r n x) c anc m = type_getattribute h c anc m"
  by (simp add: type_getattribute_def split: option.splits)

lemma type_getattribute_dict_del_other [simp]:
  "m \<noteq> n \<Longrightarrow> type_getattribute (dict_del h r n) c anc m = type_getattribute h c anc m"
  by (simp add: type_getattribute_def split: option.splits)

lemma py_getattr_dict_set_other [simp]:
  "m \<noteq> n \<Longrightarrow> py_getattr (dict_set h r n x) v m = py_getattr h v m"
  by (induction h v m rule: py_getattr.induct)
    (simp_all add: py_getattr.simps split: kind.splits sum.splits)

lemma py_getattr_dict_del_other [simp]:
  "m \<noteq> n \<Longrightarrow> py_getattr (dict_del h r n) v m = py_getattr h v m"
  by (induction h v m rule: py_getattr.induct)
    (simp_all add: py_getattr.simps split: kind.splits sum.splits)

lemma first_raw_dict_set_other [simp]:
  "m \<noteq> n \<Longrightarrow> first_raw (dict_set h r n x) vs m = first_raw h vs m"
  by (induction vs) (simp_all split: sum.splits)

lemma first_raw_dict_del_other [simp]:
  "m \<noteq> n \<Longrightarrow> first_raw (dict_del h r n) vs m = first_raw h vs m"
  by (induction vs) (simp_all split: sum.splits)

lemma get_attribute_dict_set_other [simp]:
  "m \<noteq> n \<Longrightarrow> get_attribute (dict_set h r n x) v m = get_attribute h v m"
  by (simp add: get_attribute_def split: pyval.splits)

lemma get_attribute_dict_del_other [simp]:
  "m \<noteq> n \<Longrightarrow> get_attribute (dict_del h r n) v m = get_attribute h v m"
  by (simp add: get_attribute_def split: pyval.splits)

lemma getattr_default_dict_set_other [simp]:
  "m \<noteq> n \<Longrightarrow> getattr_default (dict_set h r n x) v m d = getattr_default h v m d"
  by (simp add: getattr_default_def)

lemma getattr_default_dict_del_other [simp]:
  "m \<noteq> n \<Longrightarrow> getattr_default (dict_del h r n) v m d = getattr_default h v m d"
  by (simp add: getattr_default_def)

lemma created_flag_dict_set_other [simp]:
  "m \<noteq> CREATED n \<Longrightarrow> created_flag (dict_set h r m x) d n = created_flag h d n"
  by (simp add: created_flag_def)

lemma created_flag_dict_del_other [simp]:
  "m \<noteq> CREATED n \<Longrightarrow> created_flag (dict_del h r m) d n = created_flag h d n"
  by (simp add: created_flag_def)

lemma original_stack_dict_set_other [simp]:
  "m \<noteq> ORIGINAL_IDS n \<Longrightarrow> original_stack (dict_set h r m x) d n = original_stack h d n"
  by (simp add: original_stack_def)

lemma original_stack_dict_del_other [simp]:
  "m \<noteq> ORIGINAL_IDS n \<Longrightarrow> original_stack (dict_del h r m) d n = original_stack h d n"
  by (simp add: original_stack_def)

subsection \<open>Names\<close>

lemma prefix_neq: "xs \<noteq> [] \<Longrightarrow> xs @ n \<noteq> n"
  by (metis append_self_conv2)

lemma CREATED_neq [simp]: "CREATED n \<noteq> n" "n \<noteq> CREATED n"
  using prefix_neq [of "''_monkey_created_''" n] by (auto simp: CREATED_def)

lemma ORIGINAL_IDS_neq [simp]: "ORIGINAL_IDS n \<noteq> n" "n \<noteq> ORIGINAL_IDS n"
  using prefix_neq [of "''_monkey_ids_''" n] by (auto simp: ORIGINAL_IDS_def)

lemma ORIGINAL_ITEM_neq [simp]: "ORIGINAL_ITEM n k \<noteq> n" "n \<noteq> ORIGINAL_ITEM n k"
proof -
  have "length (ORIGINAL_ITEM n k) \<noteq> length n" by (simp add: ORIGINAL_ITEM_def)
  then show "ORIGINAL_ITEM n k \<noteq> n" "n \<noteq> ORIGINAL_ITEM n k" by auto
qed

lemma internal_names_distinct [simp]:
  "CREATED n \<noteq> ORIGINAL_IDS m" "ORIGINAL_IDS m \<noteq> CREATED n"
  "CREATED n \<noteq> ORIGINAL_ITEM m k" "ORIGINAL_ITEM m k \<noteq> CREATED n"
  "ORIGINAL_IDS n \<noteq> ORIGINAL_ITEM m k" "ORIGINAL_ITEM m k \<noteq> ORIGINAL_IDS n"
  by (simp_all add: CREATED_def ORIGINAL_IDS_def ORIGINAL_ITEM_def)

lemma internal_name_engine [simp]:
  "internal_name (CREATED n)" "internal_name (ORIGINAL_IDS n)" "internal_name (ORIGINAL_ITEM n k)"
  by (simp_all add: internal_name_def CREATED_def ORIGINAL_IDS_def ORIGINAL_ITEM_def)

lemma str_nat_0: "str_nat 0 = ''0''" by (simp add: str_nat.simps digit_char_def)
lemma str_nat_1: "str_nat (Suc 0) = ''1''" by (simp add: str_nat.simps digit_char_def)

lemma ORIGINAL_ITEM_0_1 [simp]:
  "ORIGINAL_ITEM n 0 \<noteq> ORIGINAL_ITEM n (Suc 0)" "ORIGINAL_ITEM n (Suc 0) \<noteq> ORIGINAL_ITEM n 0"
  by (simp_all add: ORIGINAL_ITEM_def str_nat_0 str_nat_1)

subsection \<open>Destinations that take the writes\<close>

lemma descriptor_names_lookup_first:
  "lookup_first h cs k = Some d \<Longrightarrow> is_data_descriptor d \<Longrightarrow>
   k \<in> set (concat (map (\<lambda>c. map fst (filter (\<lambda>(k, v). is_data_descriptor v) (ob_dict (h c)))) cs))"
proof (induction cs)
  case Nil
  then show ?case by simp
next
  case (Cons c cs)
  show ?case
  proof (cases "map_of (ob_dict (h c)) k")
    case None
    with Cons show ?thesis by simp
  next
    case (Some v)
    with Cons.prems have "v = d" by simp
    with Some have "(k, d) \<in> set (ob_dict (h c))" by (simp add: map_of_SomeD)
    with Cons.prems(2) have "k \<in> fst ` {x \<in> set (ob_dict (h c)). case x of (k, v) \<Rightarrow> is_data_descriptor v}"
      by force
    then show ?thesis by simp
  qed
qed

lemma descriptor_names_type_lookup:
  "type_lookup h r k = Some d \<Longrightarrow> is_data_descriptor d \<Longrightarrow> k \<in> set (descriptor_names h r)"
  unfolding type_lookup_def descriptor_names_def by (rule descriptor_names_lookup_first)

lemma patchable_plain:
  assumes "patchable h r n" "k = n \<or> internal_name k" "type_lookup h r k = Some d"
  shows "\<not> is_data_descriptor d"
proof
  assume "is_data_descriptor d"
  with assms(3) have "k \<in> set (descriptor_names h r)" by (rule descriptor_names_type_lookup)
  with assms(1,2) show False by (auto simp: patchable_def list_all_iff)
qed

lemma descriptor_names_dict_set:
  assumes "r \<notin> set (getmro h (ob_type (h r)))"
  shows "descriptor_names (dict_set h r m x) r = descriptor_names h r"
proof -
  have "ob_dict (dict_set h r m x c) = ob_dict (h c)" if "c \<in> set (getmro h (ob_type (h r)))" for c
  proof -
    from that assms have "c \<noteq> r" by auto
    then show ?thesis by (rule dict_other_dict_set)
  qed
  then show ?thesis by (simp add: descriptor_names_def cong: map_cong)
qed

lemma descriptor_names_dict_del:
  assumes "r \<notin> set (getmro h (ob_type (h r)))"
  shows "descriptor_names (dict_del h r m) r = descriptor_names h r"
proof -
  have "ob_dict (dict_del h r m c) = ob_dict (h c)" if "c \<in> set (getmro h (ob_type (h r)))" for c
  proof -
    from that assms have "c \<noteq> r" by auto
    then show ?thesis by (rule dict_other_dict_del)
  qed
  then show ?thesis by (simp add: descriptor_names_def cong: map_cong)
qed

lemma patchable_dict_set [simp]: "patchable (dict_set h r m x) r n = patchable h r n"
  by (auto simp: patchable_def descriptor_names_dict_set)

lemma patchable_dict_del [simp]: "patchable (dict_del h r m) r n = patchable h r n"
  by (auto simp: patchable_def descriptor_names_dict_del)

lemma py_setattr_patchable:
  assumes "patchable h r n" "k = n \<or> internal_name k"
  shows "py_setattr h (PRef r) k x = Inr (dict_set h r k x)"
proof (cases "type_lookup h r k")
  case None
  with assms(1) show ?thesis by (simp add: py_setattr_def patchable_def)
next
  case (Some d)
  with assms have "\<not> is_data_descriptor d" by (rule patchable_plain)
  with Some assms(1) show ?thesis
    by (simp add: py_setattr_def patchable_def is_data_descriptor_def split: pyval.splits)
qed

lemma py_delattr_patchable:
  assumes "patchable h r n" "k = n \<or> internal_name k"
  shows "py_delattr h (PRef r) k =
           (if map_of (own_dict h r) k = None then Inl AttributeError else Inr (dict_del h r k))"
proof (cases "type_lookup h r k")
  case None
  with assms(1) show ?thesis by (auto simp: py_delattr_def patchable_def)
next
  case (Some d)
  with assms have "\<not> is_data_descriptor d" by (rule patchable_plain)
  with Some assms(1) show ?thesis
    by (auto simp: py_delattr_def patchable_def is_data_descriptor_def split: pyval.splits)
qed

lemma object_getattribute_own:
  assumes "patchable h r n" "k = n \<or> internal_name k"
  shows "object_getattribute h (PRef r) k =
           (case map_of (own_dict h r) k of
              Some x \<Rightarrow> Inr x
            | None \<Rightarrow> (case type_lookup h r k of
                         Some d \<Rightarrow> Inr (bind_instance h d r) | None \<Rightarrow> Inl AttributeError))"
proof (cases "type_lookup h r k")
  case None
  then show ?thesis by (simp add: object_getattribute_def split: option.splits)
next
  case (Some d)
  with assms have "\<not> is_data_descriptor d" by (rule patchable_plain)
  with Some show ?thesis by (simp add: object_getattribute_def split: option.splits)
qed

lemma get_attribute_own:
  assumes "patchable h r n" "k = n \<or> internal_name k" "map_of (own_dict h r) k = Some x"
  shows "get_attribute h (PRef r) k = Inr x"
  using object_getattribute_own [OF assms(1,2)] assms(3)
  by (simp add: get_attribute_def getmro_def isclass_def split: kind.splits)

lemma py_getattr_own:
  assumes "patchable h r n" "k = n \<or> internal_name k" "map_of (own_dict h r) k = Some x"
  shows "py_getattr h (PRef r) k = Inr (if isclass h (PRef r) then bind_class x r else x)"
proof (cases "isclass h (PRef r)")
  case False
  then show ?thesis
    using object_getattribute_own [OF assms(1,2)] assms(3)
    by (simp add: py_getattr.simps isclass_def split: kind.splits)
next
  case True
  then obtain anc where k: "ob_kind (h r) = KClass anc"
    by (auto simp: isclass_def split: kind.splits)
  then have own: "map_of (ob_dict (h r)) k = Some x"
    using assms(3) by (simp add: own_dict_def has_dict_def)
  show ?thesis
  proof (cases "type_lookup h r k")
    case None
    with k own True show ?thesis by (simp add: py_getattr.simps type_getattribute_def)
  next
    case (Some d)
    with assms(1,2) have "\<not> is_data_descriptor d" by (rule patchable_plain)
    with Some k own True show ?thesis by (simp add: py_getattr.simps type_getattribute_def)
  qed
qed

lemma patchable_has_dict: "patchable h r n \<Longrightarrow> has_dict h r"
  by (simp add: patchable_def)

lemma get_attribute_dict_set_same:
  "patchable h r n \<Longrightarrow> k = n \<or> internal_name k \<Longrightarrow>
   get_attribute (dict_set h r k x) (PRef r) k = Inr x"
  by (rule get_attribute_own [where n = n]) (simp_all add: patchable_has_dict)

lemma py_getattr_dict_set_same:
  "patchable h r n \<Longrightarrow> k = n \<or> internal_name k \<Longrightarrow>
   py_getattr (dict_set h r k x) (PRef r) k = Inr (if isclass h (PRef r) then bind_class x r else x)"
  using py_getattr_own [where n = n and h = "dict_set h r k x" and r = r and k = k and x = x]
  by (simp add: patchable_has_dict)

lemma bind_class_plain [simp]:
  "bind_class (PBool b) r = PBool b" "bind_class (PTuple ts) r = PTuple ts"
  "bind_class (PInt i) r = PInt i" "bind_class PNone r = PNone" "bind_class (PStr s) r = PStr s"
  by (simp_all add: bind_class_def)

lemma created_flag_dict_set_same:
  "patchable h r n \<Longrightarrow> created_flag (dict_set h r (CREATED n) (PBool b)) (PRef r) n = b"
  by (simp add: created_flag_def getattr_default_def py_getattr_dict_set_same [where n = n])

lemma original_stack_dict_set_same:
  "patchable h r n \<Longrightarrow>
   original_stack (dict_set h r (ORIGINAL_IDS n) (PTuple ts)) (PRef r) n = PTuple ts"
  by (simp add: original_stack_def getattr_default_def py_getattr_dict_set_same [where n = n])

lemma builtin_attr_error: "builtin_attr v n = Inl e \<Longrightarrow> e = AttributeError"
  by (auto simp: builtin_attr_def split: pyval.splits if_splits)

lemma object_getattribute_error: "object_getattribute h v n = Inl e \<Longrightarrow> e = AttributeError"
  by (auto simp: object_getattribute_def dest: builtin_attr_error
      split: pyval.splits option.splits if_splits)

lemma py_getattr_error: "py_getattr h v n = Inl e \<Longrightarrow> e = AttributeError"
proof (induction h v n rule: py_getattr.induct)
  case (1 h r n)
  then show ?case
    by (auto simp: py_getattr.simps type_getattribute_def dest: object_getattribute_error
        split: kind.splits option.splits if_splits)
next
  case (2 h f s n)
  then show ?case by (auto simp: py_getattr.simps split: sum.splits)
qed (auto simp: py_getattr.simps dest: builtin_attr_error)

lemma first_raw_error: "first_raw h vs n = Inl e \<Longrightarrow> e = AttributeError"
  by (induction vs) (auto split: sum.splits)

lemma get_attribute_error: "get_attribute h v n = Inl e \<Longrightarrow> e = AttributeError"
  by (auto simp: get_attribute_def Let_def dest: first_raw_error)

lemma get_attribute_absent_own:
  assumes "patchable h r n" "get_attribute h (PRef r) n = Inl e"
  shows "map_of (own_dict h r) n = None"
proof (rule ccontr)
  assume "map_of (own_dict h r) n \<noteq> None"
  then obtain x where "map_of (own_dict h r) n = Some x" by auto
  with assms(1) have "get_attribute h (PRef r) n = Inr x"
    by (intro get_attribute_own [where n = n]) simp_all
  with assms(2) show False by simp
qed

subsection \<open>The steps of apply and revert\<close>

lemma apply_patch_absent:
  assumes "patchable h r n" "get_attribute h (PRef r) n = Inl e"
  shows "apply_patch h (Patch (PRef r) n x s) tag =
           (None, dict_set (dict_set h r (CREATED n) (PBool True)) r n x)"
  using assms by (simp add: apply_patch_def py_setattr_patchable [where n = n])

lemma apply_patch_present:
  assumes "patchable h r n" "get_attribute h (PRef r) n = Inr target"
      and "original_stack h (PRef r) n = PTuple ts"
  shows "apply_patch h (Patch (PRef r) n x s) tag =
           (None, dict_set (dict_set (dict_set h r (ORIGINAL_ITEM n (length ts)) target)
                              r (ORIGINAL_IDS n) (PTuple (ts @ [PStr tag]))) r n x)"
  using assms
  by (simp add: apply_patch_def py_setattr_patchable [where n = n] Let_def py_len_def
      original_stack_def)

lemma revert_created:
  assumes "patchable h r n" "created_flag h (PRef r) n"
  shows "revert h (Patch (PRef r) n x s) =
           (if map_of (own_dict h r) n = None then (Some AttributeError, h)
            else (None, dict_del h r n))"
  using assms by (simp add: revert_def created_flag_def py_delattr_patchable [where n = n])

lemma revert_stacked:
  assumes "patchable h r n" "\<not> created_flag h (PRef r) n"
      and "py_getattr h (PRef r) (ORIGINAL_IDS n) = Inr (PTuple (ts @ [t]))"
      and "py_getattr h (PRef r) (ORIGINAL_ITEM n (length ts)) = Inr v"
      and "map_of (own_dict h r) (ORIGINAL_ITEM n (length ts)) \<noteq> None"
  shows "revert h (Patch (PRef r) n x s) =
           (None, dict_set (dict_del (dict_set h r n v) r (ORIGINAL_ITEM n (length ts)))
                    r (ORIGINAL_IDS n) (PTuple ts))"
  using assms
  by (simp add: revert_def created_flag_def Let_def py_len_def
      py_setattr_patchable [where n = n] py_delattr_patchable [where n = n])

lemma revert_nothing_stored:
  assumes "\<not> created_flag h d n" "\<not> truthy (original_stack h d n)"
  shows "revert h (Patch d n x s) =
           (case dunder_name h d of Inl e \<Rightarrow> (Some e, h) | Inr _ \<Rightarrow> (Some RuntimeError, h))"
  using assms
  by (auto simp: revert_def created_flag_def original_stack_def getattr_default_def Let_def
      split: sum.splits)

subsection \<open>Stores that agree on a name\<close>

lemma lookup_first_cong:
  "(\<And>c. map_of (ob_dict (h' c)) n = map_of (ob_dict (h c)) n) \<Longrightarrow>
   lookup_first h' cs n = lookup_first h cs n"
  by (induction cs) (simp_all split: option.splits)

lemma getmro_cong: "(\<And>c. ob_kind (h' c) = ob_kind (h c)) \<Longrightarrow> getmro h' = getmro h"
  by (rule ext) (simp add: getmro_def)

lemma object_getattribute_cong:
  assumes d: "\<And>c. map_of (ob_dict (h' c)) n = map_of (ob_dict (h c)) n"
      and k: "\<And>c. ob_kind (h' c) = ob_kind (h c)" and t: "\<And>c. ob_type (h' c) = ob_type (h c)"
      and m: "\<And>c. ob_name (h' c) = ob_name (h c)"
  shows "object_getattribute h' v n = object_getattribute h v n"
proof -
  have l: "type_lookup h' r n = type_lookup h r n" for r
    using lookup_first_cong [of h' n h, OF d] getmro_cong [of h' h, OF k] t
    by (simp add: type_lookup_def)
  have b: "bind_instance h' x r = bind_instance h x r" for x r
    using k t m by (simp add: bind_instance_def split: pyval.splits)
  have "has_dict h' r = has_dict h r" for r
    using k t by (simp add: has_dict_def split: kind.splits)
  then have o: "map_of (own_dict h' r) n = map_of (own_dict h r) n" for r
    using d by (simp add: own_dict_def)
  show ?thesis
    by (simp add: object_getattribute_def l b o split: pyval.splits option.splits)
qed

lemma first_raw_cong:
  assumes "\<And>c. map_of (ob_dict (h' c)) n = map_of (ob_dict (h c)) n"
      and "\<And>c. ob_kind (h' c) = ob_kind (h c)" and "\<And>c. ob_type (h' c) = ob_type (h c)"
      and "\<And>c. ob_name (h' c) = ob_name (h c)"
  shows "first_raw h' vs n = first_raw h vs n"
proof (induction vs)
  case Nil
  show ?case by simp
next
  case (Cons v vs)
  have "object_getattribute h' v n = object_getattribute h v n"
    using assms by (rule object_getattribute_cong)
  with Cons show ?case by (simp split: sum.splits)
qed

lemma get_attribute_cong:
  assumes "\<And>c. map_of (ob_dict (h' c)) n = map_of (ob_dict (h c)) n"
      and "\<And>c. ob_kind (h' c) = ob_kind (h c)" and "\<And>c. ob_type (h' c) = ob_type (h c)"
      and "\<And>c. ob_name (h' c) = ob_name (h c)"
  shows "get_attribute h' v n = get_attribute h v n"
proof -
  have "\<And>vs. first_raw h' vs n = first_raw h vs n"
    using assms by (rule first_raw_cong)
  then show ?thesis
    using getmro_cong [of h' h] assms(2)
    by (simp add: get_attribute_def isclass_def split: pyval.splits)
qed

subsection \<open>The example store\<close>

lemma fan_speed_absent: "get_attribute fan_heap (PRef 11) ''speed'' = Inl AttributeError"
  by (simp add: get_attribute_def isclass_def object_getattribute_def type_lookup_def
      own_dict_def has_dict_def getmro_def store_defs)

lemma fan_speed_no_stack: "original_stack fan_heap (PRef 11) ''speed'' = PTuple []"
  by (simp add: original_stack_def getattr_default_def py_getattr.simps object_getattribute_def
      type_lookup_def own_dict_def has_dict_def getmro_def ORIGINAL_IDS_def store_defs)

lemma fan_speed_no_flag: "\<not> created_flag fan_heap (PRef 11) ''speed''"
  by (simp add: created_flag_def getattr_default_def py_getattr.simps object_getattribute_def
      type_lookup_def own_dict_def has_dict_def getmro_def CREATED_def store_defs)

lemma fan_patchable: "patchable fan_heap 11 ''speed''"
  by (simp add: patchable_def isclass_def has_dict_def getmro_def descriptor_names_def
      is_data_descriptor_def internal_name_def store_defs)

lemma fan_no_name: "dunder_name fan_heap (PRef 11) = Inl AttributeError"
  by (simp add: dunder_name_def py_getattr.simps object_getattribute_def type_lookup_def
      own_dict_def has_dict_def getmro_def store_defs)

section \<open>PatchStack: apply and revert\<close>

lemma two_applies_on_absent:
  assumes p: "patchable h r n" and absent: "get_attribute h (PRef r) n = Inl e"
      and nostack: "original_stack h (PRef r) n = PTuple []"
      and h1: "h1 = dict_set (dict_set h r (CREATED n) (PBool True)) r n x1"
      and h2: "h2 = dict_set (dict_set (dict_set h1 r (ORIGINAL_ITEM n 0) x1) r (ORIGINAL_IDS n)
                   (PTuple [PStr t2])) r n x2"
  shows "apply_patch h (Patch (PRef r) n x1 s1) t1 = (None, h1) \<and>
         apply_patch h1 (Patch (PRef r) n x2 s2) t2 = (None, h2)"
proof -
  have a1: "apply_patch h (Patch (PRef r) n x1 s1) t1 = (None, h1)"
    unfolding h1 using p absent by (rule apply_patch_absent)
  have p1: "patchable h1 r n" using p by (simp add: h1)
  have g1: "get_attribute h1 (PRef r) n = Inr x1"
    unfolding h1 by (rule get_attribute_dict_set_same [where n = n]) (simp_all add: p)
  have s1: "original_stack h1 (PRef r) n = PTuple []" using nostack by (simp add: h1)
  have "apply_patch h1 (Patch (PRef r) n x2 s2) t2 = (None, h2)"
    using apply_patch_present [OF p1 g1 s1, of x2 s2 t2] by (simp add: h2)
  with a1 show ?thesis by simp
qed

text \<open>
  Claim C1. For every slot and every N, N applies followed by N reverts return the slot
  to its state before the applies, and no revert fails.

  The code does not do this for a member that was absent and N = 2. The first apply
  sets the CreatedFlag, the second stacks the first replacement; the flag is still set,
  so the first revert deletes the member instead of restoring the first replacement, and
  the second revert finds the flag set again, deletes a member that is no longer there
  and fails with AttributeError. This holds on every destination that takes the writes
  of the engine.
\<close>

theorem second_revert_of_created_member_fails:
  assumes p: "patchable h r n" and absent: "get_attribute h (PRef r) n = Inl e"
      and nostack: "original_stack h (PRef r) n = PTuple []"
  shows "\<exists>h1 h2 h3. apply_patch h (Patch (PRef r) n x1 s1) t1 = (None, h1) \<and>
           apply_patch h1 (Patch (PRef r) n x2 s2) t2 = (None, h2) \<and>
           revert h2 (Patch (PRef r) n x2 s2) = (None, h3) \<and>
           get_attribute h3 (PRef r) n = Inl AttributeError \<and>
           revert h3 (Patch (PRef r) n x1 s1) = (Some AttributeError, h3)"
proof -
  define h1 where "h1 = dict_set (dict_set h r (CREATED n) (PBool True)) r n x1"
  define h2 where "h2 = dict_set (dict_set (dict_set h1 r (ORIGINAL_ITEM n 0) x1) r (ORIGINAL_IDS n)
                   (PTuple [PStr t2])) r n x2"
  define h3 where "h3 = dict_del h2 r n"
  note ap = two_applies_on_absent [OF assms h1_def h2_def, of s1 t1 s2]
  have hd: "has_dict h r" using p by (rule patchable_has_dict)
  have own: "map_of (own_dict h r) n = None" using p absent by (rule get_attribute_absent_own)
  with hd have own': "map_of (ob_dict (h r)) n = None" by (simp add: own_dict_def)
  have p2: "patchable h2 r n" using p by (simp add: h2_def h1_def)
  have p3: "patchable h3 r n" using p by (simp add: h3_def h2_def h1_def)
  have "created_flag (dict_set h r (CREATED n) (PBool True)) (PRef r) n"
    using p by (simp add: created_flag_dict_set_same)
  then have f2: "created_flag h2 (PRef r) n" by (simp add: h2_def h1_def)
  then have f3: "created_flag h3 (PRef r) n" by (simp add: h3_def)
  have r1: "revert h2 (Patch (PRef r) n x2 s2) = (None, h3)"
    using revert_created [OF p2 f2, of x2 s2] hd by (simp add: h1_def h2_def h3_def)
  have "get_attribute h3 (PRef r) n = get_attribute h (PRef r) n"
    by (rule get_attribute_cong) (simp_all add: h3_def h2_def h1_def own')
  with absent have g3: "get_attribute h3 (PRef r) n = Inl AttributeError"
    using get_attribute_error by fastforce
  have r2: "revert h3 (Patch (PRef r) n x1 s1) = (Some AttributeError, h3)"
    using revert_created [OF p3 f3, of x1 s1] by (simp add: h3_def)
  from ap r1 g3 r2 show ?thesis by blast
qed

theorem second_revert_of_created_member_fails_witness:
  "patchable fan_heap 11 ''speed'' \<and>
   get_attribute fan_heap (PRef 11) ''speed'' = Inl AttributeError \<and>
   fst (apply_patch fan_heap speed5 ''default'') = None \<and>
   fst (apply_patch applied_once speed6 ''default'') = None \<and>
   fst (revert applied_twice speed6) = None \<and>
   get_attribute reverted_once (PRef 11) ''speed'' = Inl AttributeError \<and>
   revert reverted_once speed5 = (Some AttributeError, reverted_once)"
proof -
  from second_revert_of_created_member_fails
         [OF fan_patchable fan_speed_absent fan_speed_no_stack,
          of "PInt 5" PNone "''default''" "PInt 6" PNone "''default''"]
  obtain h1 h2 h3 where
    "apply_patch fan_heap (Patch (PRef 11) ''speed'' (PInt 5) PNone) ''default'' = (None, h1)"
    "apply_patch h1 (Patch (PRef 11) ''speed'' (PInt 6) PNone) ''default'' = (None, h2)"
    "revert h2 (Patch (PRef 11) ''speed'' (PInt 6) PNone) = (None, h3)"
    "get_attribute h3 (PRef 11) ''speed'' = Inl AttributeError"
    "revert h3 (Patch (PRef 11) ''speed'' (PInt 5) PNone) = (Some AttributeError, h3)"
    by blast
  then show ?thesis
    by (simp add: fan_patchable fan_speed_absent applied_once_def applied_twice_def
        reverted_once_def speed5_def speed6_def)
qed

text \<open>
  Claim C2. When the member was absent before the apply, one revert deletes the member,
  so that it is absent again and resolve fails with NotFound, and clears the CreatedFlag.

  The code deletes the member and resolve fails again, but the flag stays set: \<^verbatim>\<open>revert\<close>
  returns right after \<^verbatim>\<open>delattr\<close> and nothing in the module ever removes the flag.
\<close>

theorem created_member_revert_keeps_flag:
  assumes p: "patchable h r n" and absent: "get_attribute h (PRef r) n = Inl e"
  shows "\<exists>h1 h2. apply_patch h (Patch (PRef r) n x s) tag = (None, h1) \<and>
           get_attribute h1 (PRef r) n = Inr x \<and>
           revert h1 (Patch (PRef r) n x s) = (None, h2) \<and>
           get_attribute h2 (PRef r) n = Inl AttributeError \<and>
           created_flag h2 (PRef r) n"
proof -
  define h1 where "h1 = dict_set (dict_set h r (CREATED n) (PBool True)) r n x"
  define h2 where "h2 = dict_del h1 r n"
  have hd: "has_dict h r" using p by (rule patchable_has_dict)
  have own: "map_of (own_dict h r) n = None" using p absent by (rule get_attribute_absent_own)
  with hd have own': "map_of (ob_dict (h r)) n = None" by (simp add: own_dict_def)
  have a: "apply_patch h (Patch (PRef r) n x s) tag = (None, h1)"
    unfolding h1_def using assms by (rule apply_patch_absent)
  have p1: "patchable h1 r n" using p by (simp add: h1_def)
  have g1: "get_attribute h1 (PRef r) n = Inr x"
    unfolding h1_def by (rule get_attribute_dict_set_same [where n = n]) (simp_all add: p)
  have "created_flag (dict_set h r (CREATED n) (PBool True)) (PRef r) n"
    using p by (simp add: created_flag_dict_set_same)
  then have f1: "created_flag h1 (PRef r) n" by (simp add: h1_def)
  then have f2: "created_flag h2 (PRef r) n" by (simp add: h2_def)
  have rv: "revert h1 (Patch (PRef r) n x s) = (None, h2)"
    using revert_created [OF p1 f1, of x s] hd by (simp add: h1_def h2_def)
  have "get_attribute h2 (PRef r) n = get_attribute h (PRef r) n"
    by (rule get_attribute_cong) (simp_all add: h2_def h1_def own')
  with absent have g2: "get_attribute h2 (PRef r) n = Inl AttributeError"
    using get_attribute_error by fastforce
  from a g1 rv g2 f2 show ?thesis by blast
qed

theorem created_member_revert_keeps_flag_witness:
  "patchable fan_heap 11 ''speed'' \<and>
   get_attribute fan_heap (PRef 11) ''speed'' = Inl AttributeError \<and>
   fst (apply_patch fan_heap speed5 ''default'') = None \<and>
   get_attribute applied_once (PRef 11) ''speed'' = Inr (PInt 5) \<and>
   fst (revert applied_once speed5) = None \<and>
   get_attribute (snd (revert applied_once speed5)) (PRef 11) ''speed'' = Inl AttributeError \<and>
   created_flag (snd (revert applied_once speed5)) (PRef 11) ''speed''"
proof -
  from created_member_revert_keeps_flag
         [OF fan_patchable fan_speed_absent, of "PInt 5" PNone "''default''"]
  obtain h1 h2 where
    "apply_patch fan_heap (Patch (PRef 11) ''speed'' (PInt 5) PNone) ''default'' = (None, h1)"
    "get_attribute h1 (PRef 11) ''speed'' = Inr (PInt 5)"
    "revert h1 (Patch (PRef 11) ''speed'' (PInt 5) PNone) = (None, h2)"
    "get_attribute h2 (PRef 11) ''speed'' = Inl AttributeError"
    "created_flag h2 (PRef 11) ''speed''"
    by blast
  then show ?thesis
    by (simp add: fan_patchable fan_speed_absent applied_once_def speed5_def)
qed

text \<open>
  Claim C6. A revert on a slot with no CreatedFlag and an empty stack fails with a Revert
  error (RuntimeError), never with a NotFound-class error, whether the destination is an
  instance or a type, and leaves the slot as it was.

  The message of the RuntimeError is built from \<^verbatim>\<open>patch.destination.__name__\<close>. A
  destination without \<^verbatim>\<open>__name__\<close>, as an instance is, makes that expression raise
  AttributeError, and this is the error the caller gets. The store is left as it was.
\<close>

theorem revert_nothing_stored_on_instance:
  assumes "\<not> created_flag h d n" "\<not> truthy (original_stack h d n)"
      and "dunder_name h d = Inl e"
  shows "revert h (Patch d n x s) = (Some AttributeError, h)"
proof -
  have "e = AttributeError"
    using assms(3) by (auto simp: dunder_name_def dest: py_getattr_error)
  with revert_nothing_stored [OF assms(1,2), of x s] assms(3) show ?thesis by simp
qed

theorem revert_nothing_stored_on_instance_witness:
  "\<not> created_flag fan_heap (PRef 11) ''speed'' \<and>
   \<not> truthy (original_stack fan_heap (PRef 11) ''speed'') \<and>
   dunder_name fan_heap (PRef 11) = Inl AttributeError \<and>
   revert fan_heap speed5 = (Some AttributeError, fan_heap)"
proof -
  have s: "\<not> truthy (original_stack fan_heap (PRef 11) ''speed'')"
    by (simp add: fan_speed_no_stack)
  from revert_nothing_stored_on_instance [OF fan_speed_no_flag s fan_no_name, of "PInt 5" PNone]
  show ?thesis using fan_no_name s fan_speed_no_flag by (simp add: speed5_def)
qed

text \<open>
  On a destination that has a \<^verbatim>\<open>__name__\<close>, as every class has, the same revert fails
  with RuntimeError, as the claim says.
\<close>

lemma revert_nothing_stored_on_class:
  assumes "\<not> created_flag h d n" "\<not> truthy (original_stack h d n)"
      and "dunder_name h d = Inr v"
  shows "revert h (Patch d n x s) = (Some RuntimeError, h)"
  using revert_nothing_stored [OF assms(1,2), of x s] assms(3) by simp

lemma revert_nothing_stored_on_Fan:
  "revert fan_heap (Patch (PRef 10) ''speed'' x s) = (Some RuntimeError, fan_heap)"
proof (rule revert_nothing_stored_on_class)
  show "\<not> created_flag fan_heap (PRef 10) ''speed''"
    by (simp add: created_flag_def getattr_default_def py_getattr.simps type_getattribute_def
        type_lookup_def getmro_def CREATED_def store_defs)
  show "\<not> truthy (original_stack fan_heap (PRef 10) ''speed'')"
    by (simp add: original_stack_def getattr_default_def py_getattr.simps type_getattribute_def
        type_lookup_def getmro_def ORIGINAL_IDS_def store_defs)
  show "dunder_name fan_heap (PRef 10) = Inr (PStr ''Fan'')"
    by (simp add: dunder_name_def py_getattr.simps type_getattribute_def type_lookup_def
        getmro_def is_data_descriptor_def bind_instance_def store_defs)
qed

subsection \<open>Sequences of applies\<close>


lemma apply_patch_present_state:
  assumes p: "patchable h r n" and g: "get_attribute h (PRef r) n = Inr v"
      and st: "original_stack h (PRef r) n = PTuple ts"
      and h1: "h1 = dict_set (dict_set (dict_set h r (ORIGINAL_ITEM n (length ts)) v)
                      r (ORIGINAL_IDS n) (PTuple (ts @ [PStr tag]))) r n x"
  shows "apply_patch h (Patch (PRef r) n x s) tag = (None, h1) \<and> patchable h1 r n \<and>
         get_attribute h1 (PRef r) n = Inr x \<and>
         original_stack h1 (PRef r) n = PTuple (ts @ [PStr tag]) \<and>
         created_flag h1 (PRef r) n = created_flag h (PRef r) n"
proof -
  have a: "apply_patch h (Patch (PRef r) n x s) tag = (None, h1)"
    unfolding h1 using p g st by (rule apply_patch_present)
  have p1: "patchable h1 r n" using p by (simp add: h1)
  have g1: "get_attribute h1 (PRef r) n = Inr x"
    unfolding h1 by (rule get_attribute_dict_set_same [where n = n]) (simp_all add: p)
  have "original_stack (dict_set (dict_set h r (ORIGINAL_ITEM n (length ts)) v)
          r (ORIGINAL_IDS n) (PTuple (ts @ [PStr tag]))) (PRef r) n = PTuple (ts @ [PStr tag])"
    by (rule original_stack_dict_set_same) (simp add: p)
  then have s1: "original_stack h1 (PRef r) n = PTuple (ts @ [PStr tag])" by (simp add: h1)
  have f1: "created_flag h1 (PRef r) n = created_flag h (PRef r) n" by (simp add: h1)
  from a p1 g1 s1 f1 show ?thesis by simp
qed







section \<open>PatchStack: getOriginal\<close>

lemma snd_set_enumerate: "snd ` set (enumerate k xs) = set xs"
  using set_map [of snd "enumerate k xs"] by simp

lemma scan_ids_no_tag:
  "PStr tag \<notin> snd ` set ixs \<Longrightarrow> scan_ids h v n tag ixs = Inl AttributeError"
  by (induction ixs) auto

lemma scan_ids_append:
  "PStr tag \<notin> snd ` set pre \<Longrightarrow>
   scan_ids h v n tag (pre @ (i, PStr tag) # post) = py_getattr h v (ORIGINAL_ITEM n i)"
  by (induction pre) auto

lemma scan_ids_last_match:
  assumes "PStr tag \<notin> set post"
  shows "scan_ids h v n tag (rev (enumerate 0 (pre @ PStr tag # post)))
         = py_getattr h v (ORIGINAL_ITEM n (length pre))"
proof -
  have e: "enumerate 0 (pre @ PStr tag # post)
           = enumerate 0 pre @ (length pre, PStr tag) # enumerate (Suc (length pre)) post"
    by (simp add: enumerate_append_eq)
  have "PStr tag \<notin> snd ` set (rev (enumerate (Suc (length pre)) post))"
    using assms by (simp add: snd_set_enumerate)
  then show ?thesis
    unfolding e by (simp add: scan_ids_append)
qed

lemma get_original_no_stack:
  "py_getattr h v (ORIGINAL_IDS n) = Inl e \<Longrightarrow> get_original_attribute h v n tag = Inl AttributeError"
  by (auto simp: get_original_attribute_def dunder_name_def split: sum.splits
      dest: py_getattr_error)

lemma get_original_no_tag:
  assumes "py_getattr h v (ORIGINAL_IDS n) = Inr ids" "py_elems ids = Inr xs" "PStr tag \<notin> set xs"
  shows "get_original_attribute h v n tag = Inl AttributeError"
proof -
  have "scan_ids h v n tag (rev (enumerate 0 xs)) = Inl AttributeError"
    using assms(3) by (intro scan_ids_no_tag) (simp add: snd_set_enumerate)
  then show ?thesis
    using assms(1,2)
    by (auto simp: get_original_attribute_def dunder_name_def split: sum.splits
        dest: py_getattr_error)
qed

lemma get_original_most_recent:
  assumes "py_getattr h v (ORIGINAL_IDS n) = Inr (PTuple (pre @ PStr tag # post))"
      and "PStr tag \<notin> set post"
  shows "get_original_attribute h v n tag = py_getattr h v (ORIGINAL_ITEM n (length pre))"
  using assms by (simp add: get_original_attribute_def scan_ids_last_match)

lemma two_layers:
  assumes p: "patchable h r n" and orig: "get_attribute h (PRef r) n = Inr (PInt 1)"
      and nostack: "original_stack h (PRef r) n = PTuple []"
      and h1: "h1 = dict_set (dict_set (dict_set h r (ORIGINAL_ITEM n 0) (PInt 1))
                      r (ORIGINAL_IDS n) (PTuple [PStr ''x''])) r n (PInt 2)"
      and h2: "h2 = dict_set (dict_set (dict_set h1 r (ORIGINAL_ITEM n (Suc 0)) (PInt 2))
                      r (ORIGINAL_IDS n) (PTuple [PStr ''x'', PStr ''y''])) r n (PInt 3)"
  shows "apply_patch h (Patch (PRef r) n (PInt 2) s) ''x'' = (None, h1)"
    and "apply_patch h1 (Patch (PRef r) n (PInt 3) s) ''y'' = (None, h2)"
    and "patchable h2 r n"
    and "created_flag h2 (PRef r) n = created_flag h (PRef r) n"
    and "original_stack h2 (PRef r) n = PTuple [PStr ''x'', PStr ''y'']"
    and "py_getattr h2 (PRef r) (ORIGINAL_IDS n) = Inr (PTuple [PStr ''x'', PStr ''y''])"
    and "py_getattr h2 (PRef r) (ORIGINAL_ITEM n 0) = Inr (PInt 1)"
    and "py_getattr h2 (PRef r) (ORIGINAL_ITEM n (Suc 0)) = Inr (PInt 2)"
proof -
  have e1: "h1 = dict_set (dict_set (dict_set h r (ORIGINAL_ITEM n (length ([]::pyval list))) (PInt 1))
                      r (ORIGINAL_IDS n) (PTuple ([] @ [PStr ''x'']))) r n (PInt 2)"
    by (simp add: h1)
  note a = apply_patch_present_state [OF p orig nostack e1, of s]
  from a show a1: "apply_patch h (Patch (PRef r) n (PInt 2) s) ''x'' = (None, h1)" by simp
  from a have p1: "patchable h1 r n" and g1: "get_attribute h1 (PRef r) n = Inr (PInt 2)"
    and s1: "original_stack h1 (PRef r) n = PTuple [PStr ''x'']"
    and f1: "created_flag h1 (PRef r) n = created_flag h (PRef r) n"
    by simp_all
  have e2: "h2 = dict_set (dict_set (dict_set h1 r (ORIGINAL_ITEM n (length [PStr ''x''])) (PInt 2))
                      r (ORIGINAL_IDS n) (PTuple ([PStr ''x''] @ [PStr ''y'']))) r n (PInt 3)"
    by (simp add: h2)
  note b = apply_patch_present_state [OF p1 g1 s1 e2, of s]
  from b show "apply_patch h1 (Patch (PRef r) n (PInt 3) s) ''y'' = (None, h2)" by simp
  from b show p2: "patchable h2 r n" by simp
  from b f1 show "created_flag h2 (PRef r) n = created_flag h (PRef r) n" by simp
  from b show "original_stack h2 (PRef r) n = PTuple [PStr ''x'', PStr ''y'']" by simp
  have pa: "patchable (dict_set (dict_set h1 r (ORIGINAL_ITEM n (Suc 0)) (PInt 2))
              r (ORIGINAL_IDS n) (PTuple [PStr ''x'', PStr ''y''])) r n"
    using p1 by simp
  have "py_getattr (dict_set (dict_set h1 r (ORIGINAL_ITEM n (Suc 0)) (PInt 2))
              r (ORIGINAL_IDS n) (PTuple [PStr ''x'', PStr ''y''])) (PRef r) (ORIGINAL_IDS n)
          = Inr (PTuple [PStr ''x'', PStr ''y''])"
    using py_getattr_dict_set_same [where n = n and k = "ORIGINAL_IDS n" and r = r
        and h = "dict_set h1 r (ORIGINAL_ITEM n (Suc 0)) (PInt 2)"
        and x = "PTuple [PStr ''x'', PStr ''y'']"] p1
    by simp
  then show "py_getattr h2 (PRef r) (ORIGINAL_IDS n) = Inr (PTuple [PStr ''x'', PStr ''y''])"
    by (simp add: h2)
  have "py_getattr (dict_set h r (ORIGINAL_ITEM n 0) (PInt 1)) (PRef r) (ORIGINAL_ITEM n 0)
          = Inr (PInt 1)"
    using py_getattr_dict_set_same [where n = n and k = "ORIGINAL_ITEM n 0" and r = r
        and h = h and x = "PInt 1"] p
    by simp
  then show "py_getattr h2 (PRef r) (ORIGINAL_ITEM n 0) = Inr (PInt 1)"
    by (simp add: h2 h1)
  have "py_getattr (dict_set h1 r (ORIGINAL_ITEM n (Suc 0)) (PInt 2)) (PRef r)
          (ORIGINAL_ITEM n (Suc 0)) = Inr (PInt 2)"
    using py_getattr_dict_set_same [where n = n and k = "ORIGINAL_ITEM n (Suc 0)" and r = r
        and h = h1 and x = "PInt 2"] p1
    by simp
  then show "py_getattr h2 (PRef r) (ORIGINAL_ITEM n (Suc 0)) = Inr (PInt 2)"
    by (simp add: h2)
qed

text \<open>
  With no CreatedFlag visible from the destination the two layers unwind as the
  specification says: getOriginal finds the value under both layers and two reverts
  restore it.
\<close>

lemma two_layers_unflagged:
  assumes p: "patchable h r n" and orig: "get_attribute h (PRef r) n = Inr (PInt 1)"
      and noflag: "\<not> created_flag h (PRef r) n"
      and nostack: "original_stack h (PRef r) n = PTuple []"
  shows "\<exists>h1 h2 h3 h4.
     apply_patch h (Patch (PRef r) n (PInt 2) s) ''x'' = (None, h1) \<and>
     apply_patch h1 (Patch (PRef r) n (PInt 3) s) ''y'' = (None, h2) \<and>
     get_original_attribute h2 (PRef r) n ''x'' = Inr (PInt 1) \<and>
     get_original_attribute h2 (PRef r) n ''y'' = Inr (PInt 2) \<and>
     get_original_attribute h2 (PRef r) n ''z'' = Inl AttributeError \<and>
     revert h2 (Patch (PRef r) n (PInt 3) s) = (None, h3) \<and>
     revert h3 (Patch (PRef r) n (PInt 2) s) = (None, h4) \<and>
     get_attribute h4 (PRef r) n = Inr (PInt 1)"
proof -
  let ?d = "PRef r"
  let ?i0 = "ORIGINAL_ITEM n 0" and ?i1 = "ORIGINAL_ITEM n (Suc 0)" and ?ids = "ORIGINAL_IDS n"
  define h1 where "h1 = dict_set (dict_set (dict_set h r ?i0 (PInt 1)) r ?ids (PTuple [PStr ''x''])) r n (PInt 2)"
  define h2 where "h2 = dict_set (dict_set (dict_set h1 r ?i1 (PInt 2)) r ?ids (PTuple [PStr ''x'', PStr ''y''])) r n (PInt 3)"
  define h3 where "h3 = dict_set (dict_del (dict_set h2 r n (PInt 2)) r ?i1) r ?ids (PTuple [PStr ''x''])"
  define h4 where "h4 = dict_set (dict_del (dict_set h3 r n (PInt 1)) r ?i0) r ?ids (PTuple [])"
  note tl = two_layers [OF p orig nostack h1_def h2_def]
  have hd: "has_dict h r" using p by (rule patchable_has_dict)
  have gx: "get_original_attribute h2 ?d n ''x'' = Inr (PInt 1)"
    using get_original_most_recent [of h2 ?d n "[]" "''x''" "[PStr ''y'']"] tl(6,7) by simp
  have gy: "get_original_attribute h2 ?d n ''y'' = Inr (PInt 2)"
    using get_original_most_recent [of h2 ?d n "[PStr ''x'']" "''y''" "[]"] tl(6,8) by simp
  have gz: "get_original_attribute h2 ?d n ''z'' = Inl AttributeError"
    using get_original_no_tag [OF tl(6), of _ "''z''"] by simp
  have f2: "\<not> created_flag h2 ?d n" using noflag tl(4) by simp
  have o2: "map_of (own_dict h2 r) (ORIGINAL_ITEM n (length [PStr ''x''])) \<noteq> None"
    using hd by (simp add: h2_def h1_def)
  have r1: "revert h2 (Patch ?d n (PInt 3) s) = (None, h3)"
    using revert_stacked [OF tl(3) f2, of "[PStr ''x'']" "PStr ''y''" "PInt 2" "PInt 3" s] tl(6,8) o2
    by (simp add: h3_def)
  have p3: "patchable h3 r n" using tl(3) by (simp add: h3_def)
  have f3: "\<not> created_flag h3 ?d n" using f2 by (simp add: h3_def)
  have "py_getattr (dict_set (dict_del (dict_set h2 r n (PInt 2)) r ?i1) r ?ids (PTuple [PStr ''x'']))
          ?d ?ids = Inr (PTuple [PStr ''x''])"
    using py_getattr_dict_set_same [where n = n and k = ?ids and r = r
        and h = "dict_del (dict_set h2 r n (PInt 2)) r ?i1" and x = "PTuple [PStr ''x'']"] tl(3)
    by simp
  then have ids3: "py_getattr h3 ?d ?ids = Inr (PTuple ([] @ [PStr ''x'']))" by (simp add: h3_def)
  have it3: "py_getattr h3 ?d (ORIGINAL_ITEM n (length ([]::pyval list))) = Inr (PInt 1)"
    using tl(7) by (simp add: h3_def)
  have o3: "map_of (own_dict h3 r) (ORIGINAL_ITEM n (length ([]::pyval list))) \<noteq> None"
    using hd by (simp add: h3_def h2_def h1_def)
  have r2: "revert h3 (Patch ?d n (PInt 2) s) = (None, h4)"
    using revert_stacked [OF p3 f3 ids3 it3 o3, of "PInt 2" s] by (simp add: h4_def)
  have "get_attribute (dict_set h3 r n (PInt 1)) ?d n = Inr (PInt 1)"
    by (rule get_attribute_dict_set_same [where n = n]) (simp_all add: p3)
  then have f: "get_attribute h4 ?d n = Inr (PInt 1)" by (simp add: h4_def)
  from tl(1,2) gx gy gz r1 r2 f show ?thesis by blast
qed

lemma fan_class_speed_absent: "get_attribute fan_heap (PRef 10) ''speed'' = Inl AttributeError"
  by (simp add: get_attribute_def isclass_def object_getattribute_def type_lookup_def
      own_dict_def has_dict_def getmro_def store_defs)

lemma fan_class_patchable: "patchable fan_heap 10 ''speed''"
  by (simp add: patchable_def isclass_def has_dict_def getmro_def descriptor_names_def
      is_data_descriptor_def internal_name_def immutable_type_def store_defs)

lemma flagged_heap_eq:
  "flagged_heap = dict_set (dict_set (dict_set fan_heap 10 (CREATED ''speed'') (PBool True))
                    10 ''speed'' (PInt 7)) 11 ''speed'' (PInt 1)"
  using apply_patch_absent [OF fan_class_patchable fan_class_speed_absent, of "PInt 7" PNone "''default''"]
  by (simp add: flagged_heap_def speed7_def)

lemma flagged_heap_slot:
  "patchable flagged_heap 11 ''speed''"
  "get_attribute flagged_heap (PRef 11) ''speed'' = Inr (PInt 1)"
  "created_flag flagged_heap (PRef 11) ''speed''"
  "original_stack flagged_heap (PRef 11) ''speed'' = PTuple []"
  "get_attribute (dict_del flagged_heap 11 ''speed'') (PRef 11) ''speed'' = Inr (PInt 7)"
proof -
  show "patchable flagged_heap 11 ''speed''"
    by (simp add: flagged_heap_eq patchable_def isclass_def has_dict_def getmro_def
        descriptor_names_def is_data_descriptor_def internal_name_def CREATED_def dict_set_def
        store_defs)
  show "get_attribute flagged_heap (PRef 11) ''speed'' = Inr (PInt 1)"
    by (simp add: flagged_heap_eq get_attribute_def isclass_def object_getattribute_def
        type_lookup_def own_dict_def has_dict_def getmro_def is_data_descriptor_def CREATED_def
        dict_set_def store_defs)
  show "created_flag flagged_heap (PRef 11) ''speed''"
    by (simp add: flagged_heap_eq created_flag_def getattr_default_def py_getattr.simps
        object_getattribute_def type_lookup_def own_dict_def has_dict_def getmro_def
        is_data_descriptor_def bind_instance_def CREATED_def dict_set_def store_defs)
  show "original_stack flagged_heap (PRef 11) ''speed'' = PTuple []"
    by (simp add: flagged_heap_eq original_stack_def getattr_default_def py_getattr.simps
        object_getattribute_def type_lookup_def own_dict_def has_dict_def getmro_def
        ORIGINAL_IDS_def CREATED_def dict_set_def store_defs)
  show "get_attribute (dict_del flagged_heap 11 ''speed'') (PRef 11) ''speed'' = Inr (PInt 7)"
    by (simp add: flagged_heap_eq get_attribute_def isclass_def object_getattribute_def
        type_lookup_def own_dict_def has_dict_def getmro_def is_data_descriptor_def
        bind_instance_def CREATED_def dict_set_def dict_del_def store_defs)
qed

text \<open>
  Claim C5. On a slot whose member originally holds 1, after apply with tag \<^verbatim>\<open>x\<close> and
  value 2 and apply with tag \<^verbatim>\<open>y\<close> and value 3, getOriginal with tag \<^verbatim>\<open>x\<close> returns 1,
  found by scanning the stack from the most recent entry to the oldest for the first
  entry with the tag, and two reverts restore the value 1; getOriginal fails when there
  is no stack or no stacked entry has the tag.

  The code does not restore the value on a slot from which a CreatedFlag is visible, as
  it is on an instance whose class had the member created by a patch, or on a slot that
  was created and reverted before. The two applies stack both values and getOriginal
  finds 1, but \<^verbatim>\<open>revert\<close> tests the flag before the stack: the first revert deletes
  the member, so that the slot reads as if the original member had been deleted, and the
  second revert fails with AttributeError.
\<close>

theorem flagged_slot_loses_original:
  assumes p: "patchable h r n" and orig: "get_attribute h (PRef r) n = Inr (PInt 1)"
      and flag: "created_flag h (PRef r) n"
      and nostack: "original_stack h (PRef r) n = PTuple []"
  shows "\<exists>h1 h2 h3.
     apply_patch h (Patch (PRef r) n (PInt 2) s) ''x'' = (None, h1) \<and>
     apply_patch h1 (Patch (PRef r) n (PInt 3) s) ''y'' = (None, h2) \<and>
     get_original_attribute h2 (PRef r) n ''x'' = Inr (PInt 1) \<and>
     revert h2 (Patch (PRef r) n (PInt 3) s) = (None, h3) \<and>
     get_attribute h3 (PRef r) n = get_attribute (dict_del h r n) (PRef r) n \<and>
     revert h3 (Patch (PRef r) n (PInt 2) s) = (Some AttributeError, h3)"
proof -
  let ?d = "PRef r"
  let ?i0 = "ORIGINAL_ITEM n 0" and ?i1 = "ORIGINAL_ITEM n (Suc 0)" and ?ids = "ORIGINAL_IDS n"
  define h1 where "h1 = dict_set (dict_set (dict_set h r ?i0 (PInt 1)) r ?ids (PTuple [PStr ''x''])) r n (PInt 2)"
  define h2 where "h2 = dict_set (dict_set (dict_set h1 r ?i1 (PInt 2)) r ?ids (PTuple [PStr ''x'', PStr ''y''])) r n (PInt 3)"
  define h3 where "h3 = dict_del h2 r n"
  note tl = two_layers [OF p orig nostack h1_def h2_def]
  have hd: "has_dict h r" using p by (rule patchable_has_dict)
  have gx: "get_original_attribute h2 ?d n ''x'' = Inr (PInt 1)"
    using get_original_most_recent [of h2 ?d n "[]" "''x''" "[PStr ''y'']"] tl(6,7) by simp
  have f2: "created_flag h2 ?d n" using flag tl(4) by simp
  have r1: "revert h2 (Patch ?d n (PInt 3) s) = (None, h3)"
    using revert_created [OF tl(3) f2, of "PInt 3" s] hd by (simp add: h1_def h2_def h3_def)
  have g3: "get_attribute h3 ?d n = get_attribute (dict_del h r n) ?d n"
    by (rule get_attribute_cong) (simp_all add: h3_def h2_def h1_def)
  have p3: "patchable h3 r n" using tl(3) by (simp add: h3_def)
  have f3: "created_flag h3 ?d n" using f2 by (simp add: h3_def)
  have r2: "revert h3 (Patch ?d n (PInt 2) s) = (Some AttributeError, h3)"
    using revert_created [OF p3 f3, of "PInt 2" s] by (simp add: h3_def)
  from tl(1,2) gx r1 g3 r2 show ?thesis by blast
qed

theorem flagged_slot_loses_original_witness:
  "patchable flagged_heap 11 ''speed'' \<and>
   get_attribute flagged_heap (PRef 11) ''speed'' = Inr (PInt 1) \<and>
   created_flag flagged_heap (PRef 11) ''speed'' \<and>
   original_stack flagged_heap (PRef 11) ''speed'' = PTuple [] \<and>
   fst (apply_patch flagged_heap speed_x ''x'') = None \<and>
   fst (apply_patch flagged_x speed_y ''y'') = None \<and>
   get_original_attribute flagged_xy (PRef 11) ''speed'' ''x'' = Inr (PInt 1) \<and>
   fst (revert flagged_xy speed_y) = None \<and>
   get_attribute flagged_reverted (PRef 11) ''speed'' = Inr (PInt 7) \<and>
   revert flagged_reverted speed_x = (Some AttributeError, flagged_reverted)"
proof -
  from flagged_slot_loses_original [OF flagged_heap_slot(1,2,3,4), of PNone]
  obtain h1 h2 h3 where
    "apply_patch flagged_heap (Patch (PRef 11) ''speed'' (PInt 2) PNone) ''x'' = (None, h1)"
    "apply_patch h1 (Patch (PRef 11) ''speed'' (PInt 3) PNone) ''y'' = (None, h2)"
    "get_original_attribute h2 (PRef 11) ''speed'' ''x'' = Inr (PInt 1)"
    "revert h2 (Patch (PRef 11) ''speed'' (PInt 3) PNone) = (None, h3)"
    "get_attribute h3 (PRef 11) ''speed'' = get_attribute (dict_del flagged_heap 11 ''speed'') (PRef 11) ''speed''"
    "revert h3 (Patch (PRef 11) ''speed'' (PInt 2) PNone) = (Some AttributeError, h3)"
    by blast
  then show ?thesis
    by (simp add: flagged_heap_slot flagged_x_def flagged_xy_def flagged_reverted_def
        speed_x_def speed_y_def)
qed

section \<open>MemberResolver\<close>







section \<open>PatchSetBuilder: the members of a class\<close>














section \<open>Patch objects: hashing\<close>

text \<open>
  Claim C10. For every patch \<open>p\<close>, \<^verbatim>\<open>hash(p)\<close> raises TypeError: the implementation
  hashes the sorted list of the attribute items of \<open>p\<close> and a list is unhashable. So no
  patch can be an element of a set or a key of a dict, which both hash their keys.
\<close>

theorem patch_unhashable: "Patch_hash hf p = Inl TypeError"
  by (simp add: Patch_hash_def)

theorem patch_unhashable_witness: "Patch_hash (\<lambda>v. 0) patch_f = Inl TypeError"
  using patch_unhashable [of "\<lambda>v. 0" patch_f] by simp

end
